theory Spec2Isabelle
  imports Complex_Main "HOL-Library.Sublist" "HOL-Library.Multiset"
begin

section \<open>JavaScript values used by the pipeline\<close>

text \<open>
  A JavaScript string is embedded as the list of bytes of its UTF-8 encoding (\<open>string\<close>).
  The operations the code applies to strings (\<open>includes\<close>, \<open>split(':')\<close>, the regular
  expression \<open>/\<euro>(\d+)/\<close>, concatenation) give the same answer on the UTF-8 bytes as on
  the UTF-16 code units of the source. The euro sign U+20AC is the three bytes below.
\<close>

definition euro :: string where
  "euro = [CHR 0xE2, CHR 0x82, CHR 0xAC]"

text \<open>
  \<open>String.prototype.toLowerCase\<close>, on the ASCII letters: an upper-case letter (codes 65 to
  90) gets bit 5 set. Bytes of non-ASCII characters are left as they are (the source would
  lower-case accented capitals as well).
\<close>

definition toLowerChar :: "char \<Rightarrow> char" where
  "toLowerChar c =
     (if 65 \<le> (of_char c :: nat) \<and> (of_char c :: nat) \<le> 90
      then (case c of Char b0 b1 b2 b3 b4 b5 b6 b7 \<Rightarrow> Char b0 b1 b2 b3 b4 True b6 b7)
      else c)"

definition toLowerCase :: "string \<Rightarrow> string" where
  "toLowerCase s = map toLowerChar s"

text \<open>\<open>s.includes(sub)\<close>: \<open>sub\<close> occurs in \<open>s\<close> as a contiguous substring.\<close>

fun str_includes :: "string \<Rightarrow> string \<Rightarrow> bool" where
  "str_includes [] sub = (sub = [])"
| "str_includes (c # s) sub = (prefix sub (c # s) \<or> str_includes s sub)"

text \<open>\<open>s.split(sep)\<close> for a separator of one character.\<close>

fun split :: "char \<Rightarrow> string \<Rightarrow> string list" where
  "split sep [] = [[]]"
| "split sep (c # s) =
     (if c = sep then [] # split sep s
      else (case split sep s of [] \<Rightarrow> [[c]] | w # ws \<Rightarrow> (c # w) # ws))"

text \<open>
  \<open>Number(s)\<close> on the strings a clock time is made of: a string of decimal digits is its
  value and the empty string is 0. Every other string is \<open>None\<close>, which stands for
  \<open>NaN\<close>; signed, fractional, hexadecimal, exponent and blank-padded numerals, which
  \<open>Number\<close> also accepts, are outside the fragment modelled. An arithmetic operation on
  \<open>NaN\<close> is \<open>NaN\<close>, and every comparison with \<open>NaN\<close> is false.
\<close>

definition isDigit :: "char \<Rightarrow> bool" where
  "isDigit c = (48 \<le> (of_char c :: nat) \<and> (of_char c :: nat) \<le> 57)"

definition digitValue :: "char \<Rightarrow> nat" where
  "digitValue c = of_char c - 48"

definition parseDigits :: "string \<Rightarrow> nat" where
  "parseDigits s = foldl (\<lambda>n c. 10 * n + digitValue c) 0 s"

definition Number :: "string \<Rightarrow> nat option" where
  "Number s = (if list_all isDigit s then Some (parseDigits s) else None)"

definition js_ge :: "nat option \<Rightarrow> nat option \<Rightarrow> bool" where
  "js_ge a b = (case (a, b) of (Some x, Some y) \<Rightarrow> x \<ge> y | _ \<Rightarrow> False)"

definition js_le :: "nat option \<Rightarrow> nat option \<Rightarrow> bool" where
  "js_le a b = (case (a, b) of (Some x, Some y) \<Rightarrow> x \<le> y | _ \<Rightarrow> False)"

definition js_lt :: "nat option \<Rightarrow> nat option \<Rightarrow> bool" where
  "js_lt a b = (case (a, b) of (Some x, Some y) \<Rightarrow> x < y | _ \<Rightarrow> False)"

text \<open>
  Truthiness of an optional string field: \<open>undefined\<close> (\<open>None\<close>) and the empty string are
  falsy.
\<close>

definition truthy :: "string option \<Rightarrow> bool" where
  "truthy v = (case v of None \<Rightarrow> False | Some s \<Rightarrow> s \<noteq> [])"

section \<open>Day scheduler: data\<close>

text \<open>The interface \<open>Activity\<close> of the day planner (affiliate-engine.ts).\<close>

record Activity =
  name :: string
  type :: string
  address :: string
  duration :: nat
  price :: string
  openTime :: "string option"
  closeTime :: "string option"
  booking :: "string option"
  needsReservation :: "bool option"
  coordinates :: "(real \<times> real) option"

section \<open>Day scheduler: opening hours\<close>

text \<open>
  \<open>timeToMinutes\<close>: \<open>const [hours, minutes] = time.split(':').map(Number)\<close>, then
  \<open>hours * 60 + minutes\<close>. A missing second field is \<open>undefined\<close>, and the sum is
  \<open>NaN\<close>.
\<close>

definition timeToMinutes :: "string \<Rightarrow> nat option" where
  "timeToMinutes t =
     (case map Number (split CHR '':'' t) of
        Some hours # Some minutes # _ \<Rightarrow> Some (hours * 60 + minutes)
      | _ \<Rightarrow> None)"

text \<open>
  \<open>isOpenAt\<close>. The day of the week is \<open>None\<close> when \<open>getDayOfWeek\<close> yields
  \<open>undefined\<close> (an invalid date).
\<close>

definition isOpenAt :: "Activity \<Rightarrow> string \<Rightarrow> string option \<Rightarrow> bool" where
  "isOpenAt activity t dayOfWeek =
     (if str_includes (toLowerCase (name activity)) ''berghain'' \<and> dayOfWeek = Some ''Monday''
      then False
      else if \<not> truthy (openTime activity) \<or> \<not> truthy (closeTime activity)
      then True
      else
        (let timeMin = timeToMinutes t;
             openMin = timeToMinutes (the (openTime activity));
             closeMin = timeToMinutes (the (closeTime activity))
         in if js_lt closeMin openMin
            then js_ge timeMin openMin \<or> js_le timeMin closeMin
            else js_ge timeMin openMin \<and> js_le timeMin closeMin))"

text \<open>The overnight club of the scheduler scenario.\<close>

definition overnightClub :: Activity where
  "overnightClub =
     \<lparr> name = ''Tresor'', type = ''club'', address = ''Koepenicker Str. 70'', duration = 180,
       price = euro @ ''15'', openTime = Some ''23:00'', closeTime = Some ''06:00'',
       booking = None, needsReservation = None, coordinates = None \<rparr>"


text \<open>Berghain with generic hours that cover the whole day, and a park with no hours.\<close>

definition berghainClub :: Activity where
  "berghainClub =
     \<lparr> name = ''Berghain'', type = ''club'', address = ''Am Wriezener Bahnhof'',
       duration = 240, price = euro @ ''20'', openTime = Some ''00:00'',
       closeTime = Some ''23:59'', booking = None, needsReservation = None,
       coordinates = None \<rparr>"

definition tiergarten :: Activity where
  "tiergarten =
     \<lparr> name = ''Tiergarten'', type = ''park'', address = ''Mitte'', duration = 90,
       price = ''free'', openTime = None, closeTime = None, booking = None,
       needsReservation = None, coordinates = None \<rparr>"

section \<open>Day scheduler: total cost\<close>

text \<open>The interface \<open>TimeSlot\<close> of the day planner.\<close>

record TimeSlot =
  time :: string
  activity :: Activity
  travelTime :: "nat option"
  affiliateLink :: "string option"
  tips :: "string list option"

text \<open>
  \<open>price.match(/\<euro>(\d+)/)\<close>: the capture group of the leftmost match, that is, the
  longest run of decimal digits right after the first euro sign that has a digit after it;
  \<open>None\<close> when the expression does not match (\<open>null\<close> in the source).
\<close>

fun matchEuroDigits :: "string \<Rightarrow> string option" where
  "matchEuroDigits [] = None"
| "matchEuroDigits (c # s) =
     (if prefix euro (c # s) \<and> takeWhile isDigit (drop 3 (c # s)) \<noteq> []
      then Some (takeWhile isDigit (drop 3 (c # s)))
      else matchEuroDigits s)"

text \<open>
  The decimal digits of a number, as the template literal prints it. The source's numbers
  are doubles: the model is exact below \<open>2^53\<close>, which a sum of prices does not reach.
\<close>

fun showNat :: "nat \<Rightarrow> string" where
  "showNat n =
     (if n < 10 then [''0123456789'' ! n]
      else showNat (n div 10) @ [''0123456789'' ! (n mod 10)])"

declare showNat.simps [simp del]

text \<open>
  \<open>calculateTotalCost\<close>: the loop over the slots with its running \<open>total\<close>;
  \<open>parseInt\<close> of a run of digits is its decimal value.
\<close>

definition calculateTotalCost :: "TimeSlot list \<Rightarrow> string" where
  "calculateTotalCost slots =
     euro @ showNat
       (foldl (\<lambda>total slot.
                 case matchEuroDigits (price (activity slot)) of
                   Some digits \<Rightarrow> total + parseDigits digits
                 | None \<Rightarrow> total)
          0 slots)"

text \<open>
  The numeric price token as the specification words it: the number in the price string,
  whatever the currency symbol and the format. It is read as the first run of decimal
  digits of the string, which is what \<open>/(\d+)/\<close> extracts from a price in
  \<open>estimateBookingValue\<close> of the same file; a string with no digit has the token 0.
\<close>

definition numericToken :: "string \<Rightarrow> nat" where
  "numericToken p =
     (case dropWhile (\<lambda>c. \<not> isDigit c) p of
        [] \<Rightarrow> 0
      | ds \<Rightarrow> parseDigits (takeWhile isDigit ds))"

text \<open>
  The euro amount of a price string: at the first position where a euro sign stands
  directly before a decimal digit, the number written by the digits that follow the sign;
  0 when the string has no such position.
\<close>

definition euroAmountAt :: "string \<Rightarrow> nat \<Rightarrow> bool" where
  "euroAmountAt p i = (take 3 (drop i p) = euro \<and> i + 3 < length p \<and> isDigit (p ! (i + 3)))"

definition euroToken :: "string \<Rightarrow> nat" where
  "euroToken p =
     (case filter (euroAmountAt p) [0..<length p] of
        [] \<Rightarrow> 0
      | i # _ \<Rightarrow> parseDigits (takeWhile isDigit (drop (i + 3) p)))"

definition slotAt :: "string \<Rightarrow> Activity \<Rightarrow> TimeSlot" where
  "slotAt t a = \<lparr> time = t, activity = a, travelTime = None, affiliateLink = None, tips = None \<rparr>"

section \<open>Errors and collections\<close>

text \<open>
  What a JavaScript call can throw to its caller here: the rejection of an external client
  (embedding, vector index, completion), \<open>JSON.parse\<close> on text that is not JSON, and a
  property read on \<open>null\<close> or \<open>undefined\<close>.
\<close>

datatype error = ClientError string | SyntaxError | TypeError

text \<open>\<open>xs.map(f)\<close> with a callback that may throw: the first error ends the call.\<close>

fun mapE :: "('a \<Rightarrow> error + 'b) \<Rightarrow> 'a list \<Rightarrow> error + 'b list" where
  "mapE f [] = Inr []"
| "mapE f (x # xs) =
     (case f x of
        Inl e \<Rightarrow> Inl e
      | Inr y \<Rightarrow> (case mapE f xs of Inl e \<Rightarrow> Inl e | Inr ys \<Rightarrow> Inr (y # ys)))"

text \<open>\<open>xs.slice(a, b)\<close> for \<open>0 \<le> a \<le> b\<close>, and \<open>xs.join(sep)\<close>.\<close>

definition slice :: "nat \<Rightarrow> nat \<Rightarrow> 'a list \<Rightarrow> 'a list" where
  "slice a b xs = take (b - a) (drop a xs)"

fun join :: "string \<Rightarrow> string list \<Rightarrow> string" where
  "join sep [] = []"
| "join sep [x] = x"
| "join sep (x # y # ys) = x @ sep @ join sep (y # ys)"

text \<open>
  \<open>[...new Set(xs)]\<close>: a \<open>Set\<close> keeps the order of first insertion, so every element
  stays at its first occurrence.
\<close>

fun setInOrder :: "'a set \<Rightarrow> 'a list \<Rightarrow> 'a list" where
  "setInOrder seen [] = []"
| "setInOrder seen (x # xs) =
     (if x \<in> seen then setInOrder seen xs else x # setInOrder (insert x seen) xs)"

definition newSet :: "'a list \<Rightarrow> 'a list" where
  "newSet xs = setInOrder {} xs"

text \<open>\<open>a || b\<close> on optional strings: the first operand unless it is falsy.\<close>

definition orElse :: "string option \<Rightarrow> string \<Rightarrow> string" where
  "orElse v d = (if truthy v then the v else d)"

section \<open>Data model of the recommendation pipeline\<close>

text \<open>
  The interfaces of \<open>types\<close>, with the fields the modelled code reads or writes. A field
  that may be \<open>undefined\<close> (or \<open>null\<close>) at run time is an \<open>option\<close>. Numbers that carry
  a confidence or a score are real numbers: the source's doubles, without rounding.
\<close>

record Venue =
  v_name :: string
  v_type :: string
  v_address :: "string option"
  v_priceRange :: string
  v_bookingMethod :: string
  v_rating :: real
  v_specialNotes :: "string list"

record SuccessPattern =
  sp_id :: "string option"
  sp_destination :: "string option"
  sp_category :: "string option"
  sp_venues :: "Venue list"
  sp_budgetTier :: "string option"
  sp_successRate :: real
  sp_userSatisfaction :: real
  sp_source :: "string option"
  sp_lastUpdated :: "string option"
  sp_bookingPattern :: string
  sp_localInsights :: "string list option"

record MapsTo =
  m_budgetTier :: "string option"
  m_interests :: "string list option"
  m_pace :: "string option"
  m_groupType :: "string option"

record LanguagePattern =
  lp_id :: "string option"
  lp_intent :: "string option"
  lp_phrases :: "string list"
  lp_confidence :: real
  lp_mapsTo :: MapsTo
  lp_examples :: "string list"

text \<open>
  \<open>RAGResult\<close>; the type of \<open>content\<close> is a parameter: the pattern query returns
  results that hold a \<open>SuccessPattern\<close>, the phrase query results that hold a
  \<open>LanguagePattern\<close>.
\<close>

record 'c RAGResult =
  r_type :: string
  r_content :: 'c
  r_confidence :: real
  r_source :: string

record TravelIntent =
  destination :: string
  dates :: "(string \<times> string) option"
  interests :: "string list"
  budgetTier :: string
  groupType :: string
  pace :: string
  originalText :: string
  confidence :: real

text \<open>\<open>Partial<TravelIntent>\<close>: the guess of the completion client, and the fragment
  accumulated from the phrase patterns.\<close>

record PartialIntent =
  pi_destination :: "string option"
  pi_dates :: "(string \<times> string) option"
  pi_interests :: "string list option"
  pi_budgetTier :: "string option"
  pi_groupType :: "string option"
  pi_pace :: "string option"
  pi_confidence :: "real option"

record TravelRecommendation =
  venues :: "Venue list"
  rec_confidence :: real
  reasoning :: string
  localTips :: "string list"
  alternatives :: "Venue list"

section \<open>External collaborators\<close>

text \<open>
  The embedding client, the vector index, the completion client and \<open>JSON.parse\<close> are
  outside the repository. Each is a function that returns its value or the error it
  throws. The completion client returns \<open>response.choices[0]?.message?.content\<close>, which
  may be absent. \<open>JSON.parse\<close> is taken at the type the caller reads its result at; on the
  completion's text it may also return \<open>null\<close> (\<open>JNull\<close>), on which a property read
  throws.
\<close>

datatype AIJson = JNull | JIntent PartialIntent

record Metadata =
  md_id :: "string option"
  md_destination :: "string option"
  md_category :: "string option"
  md_venues :: "(string + Venue list) option"
  md_budgetTier :: "string option"
  md_successRate :: "real option"
  md_userSatisfaction :: "real option"
  md_source :: "string option"
  md_lastUpdated :: "string option"
  md_bookingPattern :: "string option"
  md_localInsights :: "(string + string list) option"
  md_intent :: "string option"
  md_phrases :: "string option"
  md_confidence :: "real option"
  md_mapsTo :: "string option"

record Match =
  score :: real
  metadata :: Metadata

record FilterConditions =
  f_type :: string
  f_destination :: "string option"
  f_budgetTier :: "string option"
  f_category :: "string option"

record IndexQuery =
  q_vector :: "real list"
  q_topK :: nat
  q_includeMetadata :: bool
  q_filter :: FilterConditions

record ChatRequest =
  c_model :: string
  c_content :: string
  c_temperature :: real
  c_max_tokens :: nat

record Collaborators =
  embedQuery :: "string \<Rightarrow> error + real list"
  indexQuery :: "IndexQuery \<Rightarrow> error + Match list"
  chatCreate :: "ChatRequest \<Rightarrow> error + string option"
  parseVenues :: "string \<Rightarrow> error + Venue list"
  parseStrings :: "string \<Rightarrow> error + string list"
  parseMapsTo :: "string \<Rightarrow> error + MapsTo"
  parseIntent :: "string \<Rightarrow> error + AIJson"

text \<open>\<open>CONFIG.rag\<close> and \<open>CONFIG.openai.model\<close> of the configuration module.\<close>

record Config =
  topK :: nat
  confidenceThreshold :: real
  model :: string

definition CONFIG :: Config where
  "CONFIG = \<lparr> topK = 10, confidenceThreshold = 0.6, model = ''gpt-4'' \<rparr>"

section \<open>Retrieval layer (vector-store.js)\<close>

definition parseSuccessPattern :: "Collaborators \<Rightarrow> Metadata \<Rightarrow> error + SuccessPattern" where
  "parseSuccessPattern env md =
     (case (case md_venues md of
              Some (Inl s) \<Rightarrow> parseVenues env (if s = [] then ''[]'' else s)
            | Some (Inr vs) \<Rightarrow> Inr vs
            | None \<Rightarrow> Inr []) of
        Inl e \<Rightarrow> Inl e
      | Inr vs \<Rightarrow>
          (case (case md_localInsights md of
                   Some (Inl s) \<Rightarrow> parseStrings env (if s = [] then ''[]'' else s)
                 | Some (Inr ins) \<Rightarrow> Inr ins
                 | None \<Rightarrow> Inr []) of
             Inl e \<Rightarrow> Inl e
           | Inr ins \<Rightarrow>
               Inr \<lparr> sp_id = md_id md, sp_destination = md_destination md,
                     sp_category = md_category md, sp_venues = vs,
                     sp_budgetTier = md_budgetTier md,
                     sp_successRate = (case md_successRate md of Some x \<Rightarrow> x | None \<Rightarrow> 0),
                     sp_userSatisfaction =
                       (case md_userSatisfaction md of Some x \<Rightarrow> x | None \<Rightarrow> 0),
                     sp_source = md_source md, sp_lastUpdated = md_lastUpdated md,
                     sp_bookingPattern = orElse (md_bookingPattern md) '''',
                     sp_localInsights = Some ins \<rparr>))"

definition parseLanguagePattern :: "Collaborators \<Rightarrow> Metadata \<Rightarrow> error + LanguagePattern" where
  "parseLanguagePattern env md =
     (case parseStrings env (orElse (md_phrases md) ''[]'') of
        Inl e \<Rightarrow> Inl e
      | Inr phrases \<Rightarrow>
          (case parseMapsTo env (orElse (md_mapsTo md) ''{}'') of
             Inl e \<Rightarrow> Inl e
           | Inr mapsTo \<Rightarrow>
               Inr \<lparr> lp_id = md_id md, lp_intent = md_intent md, lp_phrases = phrases,
                     lp_confidence = (case md_confidence md of Some x \<Rightarrow> x | None \<Rightarrow> 0),
                     lp_mapsTo = mapsTo, lp_examples = [] \<rparr>))"

text \<open>The filters argument of \<open>querySuccessPatterns\<close>.\<close>

record Filters =
  destinationFilter :: "string option"
  budgetTierFilter :: "string option"
  categoryFilter :: "string option"

definition successQuery :: "Config \<Rightarrow> real list \<Rightarrow> Filters \<Rightarrow> IndexQuery" where
  "successQuery cfg embedding filters =
     \<lparr> q_vector = embedding, q_topK = topK cfg, q_includeMetadata = True,
       q_filter =
         \<lparr> f_type = ''success_pattern'',
           f_destination =
             (if truthy (destinationFilter filters)
              then Some (toLowerCase (the (destinationFilter filters))) else None),
           f_budgetTier =
             (if truthy (budgetTierFilter filters) then budgetTierFilter filters else None),
           f_category =
             (if truthy (categoryFilter filters) then categoryFilter filters else None) \<rparr> \<rparr>"

definition querySuccessPatterns ::
  "Collaborators \<Rightarrow> Config \<Rightarrow> string \<Rightarrow> Filters \<Rightarrow> error + SuccessPattern RAGResult list" where
  "querySuccessPatterns env cfg query filters =
     (case embedQuery env query of
        Inl e \<Rightarrow> Inl e
      | Inr embedding \<Rightarrow>
          (case indexQuery env (successQuery cfg embedding filters) of
             Inl e \<Rightarrow> Inl e
           | Inr matches \<Rightarrow>
               mapE (\<lambda>m. case parseSuccessPattern env (metadata m) of
                            Inl e \<Rightarrow> Inl e
                          | Inr c \<Rightarrow>
                              Inr \<lparr> r_type = ''success_pattern'', r_content = c,
                                    r_confidence = score m,
                                    r_source = orElse (md_source (metadata m)) ''unknown'' \<rparr>)
                 (filter (\<lambda>m. score m \<ge> confidenceThreshold cfg) matches)))"

definition languageQuery :: "real list \<Rightarrow> IndexQuery" where
  "languageQuery embedding =
     \<lparr> q_vector = embedding, q_topK = 5, q_includeMetadata = True,
       q_filter = \<lparr> f_type = ''language_pattern'', f_destination = None,
                    f_budgetTier = None, f_category = None \<rparr> \<rparr>"

definition queryLanguagePatterns ::
  "Collaborators \<Rightarrow> string \<Rightarrow> error + LanguagePattern RAGResult list" where
  "queryLanguagePatterns env query =
     (case embedQuery env query of
        Inl e \<Rightarrow> Inl e
      | Inr embedding \<Rightarrow>
          (case indexQuery env (languageQuery embedding) of
             Inl e \<Rightarrow> Inl e
           | Inr matches \<Rightarrow>
               mapE (\<lambda>m. case parseLanguagePattern env (metadata m) of
                            Inl e \<Rightarrow> Inl e
                          | Inr c \<Rightarrow>
                              Inr \<lparr> r_type = ''language_pattern'', r_content = c,
                                    r_confidence = score m,
                                    r_source = ''language_corpus'' \<rparr>)
                 (filter (\<lambda>m. score m \<ge> 0.6) matches)))"

section \<open>Intent extractor (intent-extractor.js)\<close>

definition emptyIntent :: PartialIntent where
  "emptyIntent =
     \<lparr> pi_destination = None, pi_dates = None, pi_interests = None, pi_budgetTier = None,
       pi_groupType = None, pi_pace = None, pi_confidence = None \<rparr>"

text \<open>The value \<open>{ confidence: 0.3 }\<close> that \<open>extractWithAI\<close> returns from its \<open>catch\<close>.\<close>

definition degradedIntent :: PartialIntent where
  "degradedIntent = emptyIntent \<lparr> pi_confidence := Some 0.3 \<rparr>"

definition extractionPrompt :: "string \<Rightarrow> string" where
  "extractionPrompt userMessage =
     [CHR 0x0A] @ ''Extract travel intent from this message. Return JSON only:'' @
       [CHR 0x0A, CHR 0x0A] @ ''Message: '' @ [CHR 0x22] @
     userMessage @
     [CHR 0x22, CHR 0x0A, CHR 0x0A] @ ''Extract:'' @ [CHR 0x0A] @ ''{'' @
       [CHR 0x0A] @ ''  '' @ [CHR 0x22] @ ''destination'' @ [CHR 0x22] @ '': '' @
       [CHR 0x22] @ ''city/country name or null'' @ [CHR 0x22] @ '','' @
       [CHR 0x0A] @ ''  '' @ [CHR 0x22] @ ''dates'' @ [CHR 0x22] @ '': {'' @
       [CHR 0x22] @ ''start'' @ [CHR 0x22] @ '': '' @ [CHR 0x22] @ ''YYYY-MM-DD'' @
       [CHR 0x22] @ '', '' @ [CHR 0x22] @ ''end'' @ [CHR 0x22] @ '': '' @
       [CHR 0x22] @ ''YYYY-MM-DD'' @ [CHR 0x22] @ ''} or null,'' @ [CHR 0x0A] @
       ''  '' @ [CHR 0x22] @ ''interests'' @ [CHR 0x22] @ '': ['' @ [CHR 0x22] @
       ''array'' @ [CHR 0x22] @ '', '' @ [CHR 0x22] @ ''of'' @ [CHR 0x22] @ '', '' @
       [CHR 0x22] @ ''interests'' @ [CHR 0x22] @ ''],'' @ [CHR 0x0A] @ ''  '' @
       [CHR 0x22] @ ''budgetTier'' @ [CHR 0x22] @ '': '' @ [CHR 0x22] @
       ''low|medium|high|luxury'' @ [CHR 0x22] @ '','' @ [CHR 0x0A] @ ''  '' @
       [CHR 0x22] @ ''groupType'' @ [CHR 0x22] @ '': '' @ [CHR 0x22] @
       ''solo|couple|friends|family'' @ [CHR 0x22] @ '', '' @ [CHR 0x0A] @ ''  '' @
       [CHR 0x22] @ ''pace'' @ [CHR 0x22] @ '': '' @ [CHR 0x22] @
       ''relaxed|moderate|intensive'' @ [CHR 0x22] @ '','' @ [CHR 0x0A] @ ''  '' @
       [CHR 0x22] @ ''confidence'' @ [CHR 0x22] @ '': 0.0-1.0'' @ [CHR 0x0A] @
       ''}'' @ [CHR 0x0A, CHR 0x0A] @ ''Budget indicators:'' @ [CHR 0x0A] @ ''- '' @
       [CHR 0x22] @ ''broke'' @ [CHR 0x22] @ '', '' @ [CHR 0x22] @ ''budget'' @
       [CHR 0x22] @ '', '' @ [CHR 0x22] @ ''cheap'' @ [CHR 0x22] @ '' = low'' @
       [CHR 0x0A] @ ''- '' @ [CHR 0x22] @ ''reasonable'' @ [CHR 0x22] @ '', '' @
       [CHR 0x22] @ ''moderate'' @ [CHR 0x22] @ '' = medium  '' @ [CHR 0x0A] @
       ''- '' @ [CHR 0x22] @ ''nice'' @ [CHR 0x22] @ '', '' @ [CHR 0x22] @
       ''good'' @ [CHR 0x22] @ '' = high'' @ [CHR 0x0A] @ ''- '' @ [CHR 0x22] @
       ''luxury'' @ [CHR 0x22] @ '', '' @ [CHR 0x22] @ ''best'' @ [CHR 0x22] @
       '', '' @ [CHR 0x22] @ ''splurge'' @ [CHR 0x22] @ '' = luxury'' @
       [CHR 0x0A, CHR 0x0A] @ ''Group indicators:'' @ [CHR 0x0A] @ ''- '' @
       [CHR 0x22] @ ''I'' @ [CHR 0x22] @ '', '' @ [CHR 0x22] @ ''me'' @ [CHR 0x22] @
       '', '' @ [CHR 0x22] @ ''solo'' @ [CHR 0x22] @ '' = solo'' @ [CHR 0x0A] @
       ''- '' @ [CHR 0x22] @ ''we'' @ [CHR 0x22] @ '', '' @ [CHR 0x22] @
       ''my partner'' @ [CHR 0x22] @ '', '' @ [CHR 0x22] @ ''couple'' @ [CHR 0x22] @
       '' = couple'' @ [CHR 0x0A] @ ''- '' @ [CHR 0x22] @ ''friends'' @ [CHR 0x22] @
       '', '' @ [CHR 0x22] @ ''group'' @ [CHR 0x22] @ '', '' @ [CHR 0x22] @ ''us'' @
       [CHR 0x22] @ '' = friends'' @ [CHR 0x0A] @ ''- '' @ [CHR 0x22] @ ''family'' @
       [CHR 0x22] @ '', '' @ [CHR 0x22] @ ''kids'' @ [CHR 0x22] @ '', '' @
       [CHR 0x22] @ ''children'' @ [CHR 0x22] @ '' = family'' @ [CHR 0x0A]"

text \<open>
  \<open>extractWithAI\<close>: everything inside the \<open>try\<close> (the client call, the missing content,
  \<open>JSON.parse\<close>) ends in the \<open>catch\<close>.
\<close>

definition aiRequest :: "Config \<Rightarrow> string \<Rightarrow> ChatRequest" where
  "aiRequest cfg userMessage =
     \<lparr> c_model = model cfg, c_content = extractionPrompt userMessage,
       c_temperature = 0.1, c_max_tokens = 500 \<rparr>"

definition extractWithAI :: "Collaborators \<Rightarrow> Config \<Rightarrow> string \<Rightarrow> AIJson" where
  "extractWithAI env cfg userMessage =
     (case chatCreate env (aiRequest cfg userMessage) of
        Inl e \<Rightarrow> JIntent degradedIntent
      | Inr content \<Rightarrow>
          (if \<not> truthy content then JIntent degradedIntent
           else (case parseIntent env (the content) of
                   Inl e \<Rightarrow> JIntent degradedIntent
                 | Inr aiIntent \<Rightarrow> aiIntent)))"

text \<open>
  \<open>extractFromPatterns\<close>: one turn of the loop over the patterns, on the pair of the
  running \<open>confidence\<close> and the \<open>extracted\<close> fragment.
\<close>

definition applyPattern ::
  "string \<Rightarrow> real \<times> PartialIntent \<Rightarrow> LanguagePattern RAGResult \<Rightarrow> real \<times> PartialIntent" where
  "applyPattern message st pattern =
     (if r_type pattern \<noteq> ''language_pattern'' then st
      else
        (let langPattern = r_content pattern;
             mapsTo = lp_mapsTo langPattern;
             extracted = snd st;
             matchingPhrases =
               filter (\<lambda>phrase. str_includes message (toLowerCase phrase))
                 (lp_phrases langPattern)
         in if length matchingPhrases > 0
            then (max (fst st) (r_confidence pattern),
                  extracted
                    \<lparr> pi_budgetTier :=
                        (if truthy (m_budgetTier mapsTo) then m_budgetTier mapsTo
                         else pi_budgetTier extracted),
                      pi_interests :=
                        (case m_interests mapsTo of
                           Some added \<Rightarrow>
                             Some ((case pi_interests extracted of
                                      Some sofar \<Rightarrow> sofar | None \<Rightarrow> []) @ added)
                         | None \<Rightarrow> pi_interests extracted),
                      pi_pace :=
                        (if truthy (m_pace mapsTo) then m_pace mapsTo
                         else pi_pace extracted),
                      pi_groupType :=
                        (if truthy (m_groupType mapsTo) then m_groupType mapsTo
                         else pi_groupType extracted) \<rparr>)
            else st))"

definition extractFromPatterns ::
  "string \<Rightarrow> LanguagePattern RAGResult list \<Rightarrow> PartialIntent" where
  "extractFromPatterns userMessage patterns =
     (let message = toLowerCase userMessage;
          st = foldl (applyPattern message) (0, emptyIntent) patterns
      in (snd st) \<lparr> pi_confidence := Some (fst st) \<rparr>)"

definition mergeArrays :: "string list option \<Rightarrow> string list option \<Rightarrow> string list" where
  "mergeArrays arr1 arr2 =
     newSet ((case arr1 of Some xs \<Rightarrow> xs | None \<Rightarrow> [])
             @ (case arr2 of Some ys \<Rightarrow> ys | None \<Rightarrow> []))"

text \<open>\<open>c || 0\<close> on an optional number.\<close>

definition orZero :: "real option \<Rightarrow> real" where
  "orZero c = (case c of Some x \<Rightarrow> x | None \<Rightarrow> 0)"

text \<open>
  \<open>mergeIntents\<close> on an AI guess that is an object. (On \<open>null\<close> its first property read
  throws; \<open>extractIntent\<close> below has that branch.)
\<close>

definition mergeIntents :: "PartialIntent \<Rightarrow> PartialIntent \<Rightarrow> string \<Rightarrow> TravelIntent" where
  "mergeIntents aiIntent patternIntent userText =
     \<lparr> destination = orElse (pi_destination aiIntent) '''',
       dates = pi_dates aiIntent,
       interests = mergeArrays (pi_interests aiIntent) (pi_interests patternIntent),
       budgetTier =
         (if truthy (pi_budgetTier patternIntent) then the (pi_budgetTier patternIntent)
          else orElse (pi_budgetTier aiIntent) ''medium''),
       groupType =
         (if truthy (pi_groupType patternIntent) then the (pi_groupType patternIntent)
          else orElse (pi_groupType aiIntent) ''solo''),
       pace =
         (if truthy (pi_pace patternIntent) then the (pi_pace patternIntent)
          else orElse (pi_pace aiIntent) ''moderate''),
       originalText = userText,
       confidence =
         max (max (orZero (pi_confidence aiIntent)) (orZero (pi_confidence patternIntent)))
           0.5 \<rparr>"

text \<open>
  \<open>extractIntent\<close>. The phrase lookup is awaited outside any \<open>try\<close>: its error is the
  error of \<open>extractIntent\<close>.
\<close>

definition extractIntent :: "Collaborators \<Rightarrow> Config \<Rightarrow> string \<Rightarrow> error + TravelIntent" where
  "extractIntent env cfg userMessage =
     (case queryLanguagePatterns env userMessage of
        Inl e \<Rightarrow> Inl e
      | Inr languagePatterns \<Rightarrow>
          (case extractWithAI env cfg userMessage of
             JNull \<Rightarrow> Inl TypeError
           | JIntent aiIntent \<Rightarrow>
               Inr (mergeIntents aiIntent
                      (extractFromPatterns userMessage languagePatterns) userMessage)))"

section \<open>Fusion and recommendation engine (dual-rag-system.js)\<close>

definition getBudgetRange :: "string \<Rightarrow> string" where
  "getBudgetRange tier =
     (if tier = ''low'' then euro @ ''5-20''
      else if tier = ''medium'' then euro @ ''20-50''
      else if tier = ''high'' then euro @ ''50-100''
      else if tier = ''luxury'' then euro @ ''100+''
      else euro @ ''20-50'')"

text \<open>\<open>intent.interests[0] || 'attraction'\<close>.\<close>

definition primaryInterest :: "TravelIntent \<Rightarrow> string" where
  "primaryInterest intent =
     (case interests intent of [] \<Rightarrow> ''attraction''
      | x # _ \<Rightarrow> (if x = [] then ''attraction'' else x))"

definition generateFallbackRecommendations :: "TravelIntent \<Rightarrow> TravelRecommendation" where
  "generateFallbackRecommendations intent =
     \<lparr> venues =
         [\<lparr> v_name = ''Top '' @ primaryInterest intent @ '' in '' @ destination intent,
            v_type = primaryInterest intent,
            v_address = None,
            v_priceRange = getBudgetRange (budgetTier intent),
            v_bookingMethod = ''online'',
            v_rating = 4.0,
            v_specialNotes =
              [''Popular with travelers'', ''Recommended for first-time visitors''] \<rparr>],
       rec_confidence = 0.3,
       reasoning =
         ''I don'' @ [CHR 0x27] @ ''t have specific success patterns for '' @
         destination intent @
         '' yet, but this is a popular choice for '' @
         join '' and '' (interests intent) @ '' enthusiasts.'',
       localTips = [''Consider booking in advance'', ''Check local weather conditions''],
       alternatives = [] \<rparr>"

text \<open>\<open>deduplicateVenues\<close>: the filter with its \<open>seen\<close> set of key strings.\<close>

definition venueKey :: "Venue \<Rightarrow> string" where
  "venueKey venue = toLowerCase (v_name venue) @ ''_'' @ v_type venue"

fun dedupLoop :: "string set \<Rightarrow> Venue list \<Rightarrow> Venue list" where
  "dedupLoop seen [] = []"
| "dedupLoop seen (venue # rest) =
     (if venueKey venue \<in> seen then dedupLoop seen rest
      else venue # dedupLoop (insert (venueKey venue) seen) rest)"

definition deduplicateVenues :: "Venue list \<Rightarrow> Venue list" where
  "deduplicateVenues vs = dedupLoop {} vs"

definition venueLine :: "Venue \<Rightarrow> string" where
  "venueLine v =
     v_name v @ '' ('' @ v_type v @ '') - '' @ v_priceRange v @ '' - ''
       @ orElse (v_address v) ''location TBD''"

definition contextPrompt ::
  "TravelIntent \<Rightarrow> Venue list \<Rightarrow> string list \<Rightarrow> string \<Rightarrow> string" where
  "contextPrompt intent vs tipList originalQuery =
     [CHR 0x0A] @
       ''Based on successful travel patterns, provide contextual reas'' @
       ''oning for these recommendations:'' @ [CHR 0x0A, CHR 0x0A] @
       ''User Request: '' @ [CHR 0x22] @
     originalQuery @
     [CHR 0x22, CHR 0x0A] @ ''User Intent: '' @
     destination intent @ '', '' @ join '', '' (interests intent) @ '', ''
       @ budgetTier intent @
     '' budget'' @ [CHR 0x0A, CHR 0x0A] @ ''Retrieved Successful Venues:'' @
       [CHR 0x0A] @
     join [CHR 0x0A] (map venueLine vs) @
     [CHR 0x0A, CHR 0x0A] @ ''Local Tips:'' @ [CHR 0x0A] @
     join [CHR 0x0A] (slice 0 3 tipList) @
     [CHR 0x0A, CHR 0x0A] @
       ''Write a brief reasoning (2-3 sentences) explaining WHY these'' @
       '' venues match their request and what makes them successful c'' @
       ''hoices. Be specific about the connection to their interests '' @
       ''and budget.'' @ [CHR 0x0A]"

definition generateContextualResponse ::
  "Collaborators \<Rightarrow> Config \<Rightarrow> TravelIntent \<Rightarrow> Venue list \<Rightarrow> string list \<Rightarrow> string \<Rightarrow> string" where
  "generateContextualResponse env cfg intent vs tipList originalQuery =
     (case chatCreate env
             \<lparr> c_model = model cfg,
               c_content = contextPrompt intent vs tipList originalQuery,
               c_temperature = 0.1, c_max_tokens = 200 \<rparr> of
        Inl e \<Rightarrow> ''These recommendations are based on successful patterns from similar travelers.''
      | Inr content \<Rightarrow>
          orElse content ''These venues have proven successful for similar travelers.'')"

definition calculateRecommendationConfidence ::
  "'c RAGResult list \<Rightarrow> Venue list \<Rightarrow> real" where
  "calculateRecommendationConfidence patterns vs =
     (if length patterns = 0 \<or> length vs = 0 then 0.3
      else
        (let avgPatternConfidence =
               foldl (\<lambda>sum p. sum + r_confidence p) 0 patterns / real (length patterns);
             venueBonus = min (real (length vs) / 5) 1 * 0.2
         in min (avgPatternConfidence + venueBonus) 1.0))"

definition calculateOverallConfidence ::
  "TravelIntent \<Rightarrow> 'c RAGResult list \<Rightarrow> TravelRecommendation \<Rightarrow> real" where
  "calculateOverallConfidence intent patterns recommendations =
     (let intentConfidence = confidence intent;
          patternConfidence =
            (if length patterns > 0
             then foldl (\<lambda>sum p. sum + r_confidence p) 0 patterns / real (length patterns)
             else 0.3);
          recommendationConfidence = rec_confidence recommendations
      in intentConfidence * 0.3 + patternConfidence * 0.4 + recommendationConfidence * 0.3)"

definition generateRecommendations ::
  "Collaborators \<Rightarrow> Config \<Rightarrow> TravelIntent \<Rightarrow> SuccessPattern RAGResult list \<Rightarrow> string
     \<Rightarrow> TravelRecommendation" where
  "generateRecommendations env cfg intent successPatterns originalQuery =
     (if length successPatterns = 0 then generateFallbackRecommendations intent
      else
        (let topPatterns = slice 0 3 successPatterns;
             allVenues = concat (map (\<lambda>p. sp_venues (r_content p)) topPatterns);
             tipList =
               concat (map (\<lambda>p. case sp_localInsights (r_content p) of
                                   Some ins \<Rightarrow> ins | None \<Rightarrow> []) topPatterns);
             uniqueVenues = deduplicateVenues allVenues;
             topVenues = slice 0 5 uniqueVenues
         in \<lparr> venues = topVenues,
              rec_confidence = calculateRecommendationConfidence successPatterns topVenues,
              reasoning =
                generateContextualResponse env cfg intent topVenues tipList originalQuery,
              localTips = slice 0 5 (newSet tipList),
              alternatives = slice 5 8 uniqueVenues \<rparr>))"

text \<open>
  The fusion arithmetic in the words of the specification, over the list of pattern scores
  and the number of venues.
\<close>

definition avg :: "real list \<Rightarrow> real" where
  "avg xs = sum_list xs / real (length xs)"

definition spec_recommendationConfidence :: "real list \<Rightarrow> nat \<Rightarrow> real" where
  "spec_recommendationConfidence scores venueCount =
     (if scores = [] \<or> venueCount = 0 then 0.3
      else min (avg scores + min (real venueCount / 5) 1 * 0.2) 1.0)"

definition spec_overallConfidence :: "real \<Rightarrow> real list \<Rightarrow> real \<Rightarrow> real" where
  "spec_overallConfidence intentConfidence scores recommendationConfidence =
     0.3 * intentConfidence
     + 0.4 * (if scores = [] then 0.3 else avg scores)
     + 0.3 * recommendationConfidence"

text \<open>
  The duplicate rule in the words of the specification: two venues are duplicates iff
  lowercase(name) and type match, and the first occurrence wins.
\<close>

definition pairKey :: "Venue \<Rightarrow> string \<times> string" where
  "pairKey venue = (toLowerCase (v_name venue), v_type venue)"

fun dedupPairs :: "(string \<times> string) set \<Rightarrow> Venue list \<Rightarrow> Venue list" where
  "dedupPairs seen [] = []"
| "dedupPairs seen (venue # rest) =
     (if pairKey venue \<in> seen then dedupPairs seen rest
      else venue # dedupPairs (insert (pairKey venue) seen) rest)"

definition spec_deduplicate :: "Venue list \<Rightarrow> Venue list" where
  "spec_deduplicate vs = dedupPairs {} vs"

section \<open>Day scheduler: building the plan\<close>

datatype Pace = Relaxed | Moderate | Intensive

text \<open>The \<open>preferences\<close> argument of \<open>createDayPlan\<close>.\<close>

record Preferences =
  pref_pace :: Pace
  pref_budget :: string
  pref_interests :: "string list"
  pref_groupType :: string

record DayPlan =
  date :: string
  dayOfWeek :: "string option"
  slots :: "TimeSlot list"
  totalCost :: string
  walkingDistance :: real
  warnings :: "string list"

text \<open>
  \<open>getDayOfWeek\<close>. The weekday number comes from the built-in
  \<open>new Date(date).getDay()\<close>, which depends on the engine's date parser and on the local
  time zone: it is the parameter \<open>getDay\<close>, \<open>None\<close> for an invalid date (\<open>NaN\<close>, for
  which the array read gives \<open>undefined\<close>).
\<close>

definition getDayOfWeek :: "(string \<Rightarrow> nat option) \<Rightarrow> string \<Rightarrow> string option" where
  "getDayOfWeek getDay d =
     (case getDay d of
        None \<Rightarrow> None
      | Some n \<Rightarrow>
          (if n < 7
           then Some ([''Sunday'', ''Monday'', ''Tuesday'', ''Wednesday'', ''Thursday'',
                       ''Friday'', ''Saturday''] ! n)
           else None))"

definition getScheduleTemplate :: "Pace \<Rightarrow> (string \<times> string) list" where
  "getScheduleTemplate p =
     (case p of
        Relaxed \<Rightarrow>
          [(''09:30'', ''breakfast''), (''11:00'', ''morning_activity''),
           (''13:30'', ''lunch''), (''15:30'', ''afternoon_activity''),
           (''17:30'', ''coffee''), (''19:30'', ''dinner''),
           (''22:00'', ''evening_activity'')]
      | Moderate \<Rightarrow>
          [(''09:00'', ''breakfast''), (''10:30'', ''morning_activity''),
           (''13:00'', ''lunch''), (''14:30'', ''afternoon_activity''),
           (''17:00'', ''coffee''), (''19:00'', ''dinner''),
           (''21:30'', ''evening_activity''), (''23:30'', ''nightlife'')]
      | Intensive \<Rightarrow>
          [(''08:00'', ''breakfast''), (''09:30'', ''morning_activity''),
           (''12:00'', ''quick_lunch''), (''13:00'', ''afternoon_activity_1''),
           (''15:30'', ''afternoon_activity_2''), (''17:30'', ''coffee''),
           (''19:00'', ''dinner''), (''21:00'', ''evening_activity''),
           (''23:00'', ''nightlife''), (''02:00'', ''late_night_food'')])"

definition matchesBudget :: "Activity \<Rightarrow> string \<Rightarrow> bool" where
  "matchesBudget a budget =
     (let p = toLowerCase (price a)
      in if budget = ''low''
         then str_includes p ''free'' \<or> str_includes p (euro @ ''5'')
              \<or> str_includes p (euro @ ''10'') \<or> str_includes p (euro @ ''15'')
              \<or> str_includes p ''budget''
         else if budget = ''medium''
         then \<not> str_includes p (euro @ ''100'') \<and> \<not> str_includes p (euro @ ''200'')
              \<and> \<not> str_includes p ''luxury''
         else True)"

definition scoreActivity :: "Activity \<Rightarrow> string list \<Rightarrow> nat" where
  "scoreActivity a wanted =
     foldl (\<lambda>sc interest.
              if str_includes (toLowerCase (type a)) (toLowerCase interest)
                 \<or> str_includes (toLowerCase (name a)) (toLowerCase interest)
              then sc + 10 else sc)
       0 wanted"

text \<open>The predicate of the filter in \<open>selectBestActivity\<close>.\<close>

definition isSuitable ::
  "string \<Rightarrow> Preferences \<Rightarrow> string option \<Rightarrow> string \<Rightarrow> Activity \<Rightarrow> bool" where
  "isSuitable slotType prefs dow t a =
     (if str_includes slotType ''breakfast'' \<and> \<not> str_includes (type a) ''breakfast''
         \<and> \<not> str_includes (type a) ''cafe'' then False
      else if str_includes slotType ''lunch'' \<and> \<not> str_includes (type a) ''restaurant''
         \<and> \<not> str_includes (type a) ''lunch'' then False
      else if str_includes slotType ''dinner'' \<and> \<not> str_includes (type a) ''restaurant''
         \<and> \<not> str_includes (type a) ''dinner'' then False
      else if str_includes slotType ''coffee'' \<and> \<not> str_includes (type a) ''cafe''
         \<and> \<not> str_includes (type a) ''coffee'' then False
      else if str_includes slotType ''nightlife'' \<and> \<not> str_includes (type a) ''club''
         \<and> \<not> str_includes (type a) ''bar'' then False
      else if \<not> isOpenAt a t dow then False
      else if \<not> matchesBudget a (pref_budget prefs) then False
      else True)"

text \<open>
  \<open>selectBestActivity\<close>. \<open>suitable.sort((a, b) => bScore - aScore)\<close> is a stable sort
  by descending score (stable as ECMAScript requires since 2019), here the insertion sort
  \<open>sort_key\<close> on the negated score; \<open>suitable[0] || null\<close> is its first element.
\<close>

definition selectBestActivity ::
  "string \<Rightarrow> Activity list \<Rightarrow> Preferences \<Rightarrow> string option \<Rightarrow> string \<Rightarrow> Activity option" where
  "selectBestActivity slotType availableActivities prefs dow t =
     (let suitable = filter (isSuitable slotType prefs dow t) availableActivities;
          ranked = sort_key (\<lambda>a. - int (scoreActivity a (pref_interests prefs))) suitable
      in case ranked of [] \<Rightarrow> None | a # _ \<Rightarrow> Some a)"

text \<open>
  \<open>parseInt\<close> on the hour field of a template time: the value of the leading digits,
  \<open>NaN\<close> when there is none.
\<close>

definition parseInt :: "string \<Rightarrow> nat option" where
  "parseInt s =
     (let ds = takeWhile isDigit s in if ds = [] then None else Some (parseDigits ds))"

definition generateTips :: "Activity \<Rightarrow> string \<Rightarrow> string list" where
  "generateTips a t =
     (let hour = parseInt (hd (split CHR '':'' t))
      in (if str_includes (type a) ''restaurant''
          then (if js_ge hour (Some 12) \<and> js_le hour (Some 14)
                then [''Lunch rush - reservation recommended''] else [])
               @ (if js_ge hour (Some 19) \<and> js_le hour (Some 21)
                  then [''Peak dinner time - expect wait without reservation''] else [])
          else [])
         @ (if str_includes (type a) ''club''
            then (if str_includes (toLowerCase (name a)) ''berghain''
                  then [''Dress code: Black/techno style'',
                        ''Don'' @ [CHR 0x27] @ ''t be too drunk or too sober'',
                        ''Go in small groups or alone'',
                        ''Rejection is common - have backup plan'']
                  else [''Check dress code in advance''])
            else [])
         @ (if str_includes (type a) ''museum''
            then [''Audio guide available'']
                 @ (if js_ge hour (Some 10) \<and> js_le hour (Some 16)
                    then [''Peak hours - skip-the-line ticket worth it''] else [])
            else [])
         @ (if str_includes (type a) ''cafe''
            then [''Good wifi for remote work'', ''Power outlets available'']
            else []))"

text \<open>
  \<open>createTimeSlot\<close>. The decision of the affiliate engine is the parameter
  \<open>affiliate\<close>: the link of the decision when it says to use one, \<open>None\<close> otherwise.
\<close>

definition createTimeSlot :: "(Activity \<Rightarrow> string option) \<Rightarrow> string \<Rightarrow> Activity \<Rightarrow> TimeSlot" where
  "createTimeSlot affiliate t a =
     \<lparr> time = t, activity = a, travelTime = None, affiliateLink = affiliate a,
       tips = Some (generateTips a t) \<rparr>"

text \<open>Distances, over the real numbers. \<open>atan2\<close> is \<open>Math.atan2\<close>.\<close>

definition atan2 :: "real \<Rightarrow> real \<Rightarrow> real" where
  "atan2 y x =
     (if x > 0 then arctan (y / x)
      else if x < 0 \<and> y \<ge> 0 then arctan (y / x) + pi
      else if x < 0 then arctan (y / x) - pi
      else if y > 0 then pi / 2
      else if y < 0 then - pi / 2
      else 0)"

definition haversineDistance :: "real \<times> real \<Rightarrow> real \<times> real \<Rightarrow> real" where
  "haversineDistance coord1 coord2 =
     (let R = 6371;
          dLat = (fst coord2 - fst coord1) * pi / 180;
          dLon = (snd coord2 - snd coord1) * pi / 180;
          a = sin (dLat / 2) * sin (dLat / 2)
              + cos (fst coord1 * pi / 180) * cos (fst coord2 * pi / 180)
                * sin (dLon / 2) * sin (dLon / 2);
          c = 2 * atan2 (sqrt a) (sqrt (1 - a))
      in R * c)"

definition estimateDistance :: "Activity \<Rightarrow> Activity \<Rightarrow> real" where
  "estimateDistance from to =
     (case (coordinates from, coordinates to) of
        (Some c1, Some c2) \<Rightarrow> haversineDistance c1 c2
      | _ \<Rightarrow>
          (if str_includes (address from) ''Mitte'' \<and> str_includes (address to) ''Mitte''
           then 1.5
           else if str_includes (address from) ''Kreuzberg''
                   \<and> str_includes (address to) ''Kreuzberg''
           then 1.0
           else 3.0))"

definition estimateTravelTime :: "real \<Rightarrow> nat" where
  "estimateTravelTime distance = nat \<lceil>distance / 4 * 60\<rceil> + 5"

text \<open>
  \<open>addTravelTimes\<close>: every slot but the first gets the travel time from the slot before
  it.
\<close>

fun travelFrom :: "Activity \<Rightarrow> TimeSlot list \<Rightarrow> TimeSlot list" where
  "travelFrom prev [] = []"
| "travelFrom prev (s # rest) =
     s \<lparr> travelTime := Some (estimateTravelTime (estimateDistance prev (activity s))) \<rparr>
       # travelFrom (activity s) rest"

definition addTravelTimes :: "TimeSlot list \<Rightarrow> TimeSlot list" where
  "addTravelTimes ss = (case ss of [] \<Rightarrow> [] | s # rest \<Rightarrow> s # travelFrom (activity s) rest)"

fun tightTimings :: "TimeSlot \<Rightarrow> TimeSlot list \<Rightarrow> string list" where
  "tightTimings prev [] = []"
| "tightTimings prev (s # rest) =
     (let prevEnd = map_option (\<lambda>m. m + duration (activity prev)) (timeToMinutes (time prev));
          nextStart = timeToMinutes (time s);
          travel = (case travelTime s of Some n \<Rightarrow> n | None \<Rightarrow> 0)
      in (if js_lt nextStart (map_option (\<lambda>m. m + travel) prevEnd)
          then [''Tight timing between '' @ name (activity prev) @ '' and ''
                  @ name (activity s)]
          else [])
         @ tightTimings s rest)"

definition generateWarnings :: "TimeSlot list \<Rightarrow> string option \<Rightarrow> string list" where
  "generateWarnings ss dow =
     (if dow = Some ''Monday'' \<and> list_ex (\<lambda>s. str_includes (type (activity s)) ''museum'') ss
      then [''Many museums closed on Mondays - verify opening hours''] else [])
     @ (if dow = Some ''Sunday'' \<and> list_ex (\<lambda>s. str_includes (type (activity s)) ''shop'') ss
        then [''Many shops closed on Sundays in Germany''] else [])
     @ (case ss of [] \<Rightarrow> [] | s # rest \<Rightarrow> tightTimings s rest)
     @ (if list_ex (\<lambda>s. str_includes (type (activity s)) ''park''
                         \<or> str_includes (type (activity s)) ''market''
                         \<or> str_includes (type (activity s)) ''outdoor'') ss
        then [''Check weather forecast for outdoor activities''] else [])"

fun pairDistances :: "Activity \<Rightarrow> TimeSlot list \<Rightarrow> real" where
  "pairDistances prev [] = 0"
| "pairDistances prev (s # rest) =
     estimateDistance prev (activity s) + pairDistances (activity s) rest"

definition calculateWalkingDistance :: "TimeSlot list \<Rightarrow> real" where
  "calculateWalkingDistance ss =
     (let total = (case ss of [] \<Rightarrow> 0 | s # rest \<Rightarrow> pairDistances (activity s) rest)
      in real_of_int (round (total * 10)) / 10)"

text \<open>
  One turn of the loop over the template in \<open>createDayPlan\<close>, on the pair of \<open>slots\<close>
  and \<open>plannedTimes\<close>.
\<close>

definition fillSlot ::
  "(Activity \<Rightarrow> string option) \<Rightarrow> Activity list \<Rightarrow> Preferences \<Rightarrow> string option
     \<Rightarrow> TimeSlot list \<times> string set \<Rightarrow> string \<times> string \<Rightarrow> TimeSlot list \<times> string set" where
  "fillSlot affiliate availableActivities prefs dow st timeSlot =
     (if fst timeSlot \<in> snd st then st
      else (case selectBestActivity (snd timeSlot) availableActivities prefs dow
                   (fst timeSlot) of
              None \<Rightarrow> st
            | Some a \<Rightarrow>
                (fst st @ [createTimeSlot affiliate (fst timeSlot) a],
                 insert (fst timeSlot) (snd st))))"

text \<open>
  \<open>slots.sort((a, b) => timeToMinutes(a.time) - timeToMinutes(b.time))\<close>: a stable
  sort by minutes when every time has a number of minutes. When a time gives \<open>NaN\<close> the
  comparator is not consistent and the order the engine produces is
  implementation-defined: the model gives no result (\<open>None\<close>) there.
\<close>

definition sortSlots :: "TimeSlot list \<Rightarrow> TimeSlot list option" where
  "sortSlots ss =
     (if list_all (\<lambda>s. timeToMinutes (time s) \<noteq> None) ss
      then Some (sort_key (\<lambda>s. the (timeToMinutes (time s))) ss)
      else None)"

definition createDayPlan ::
  "(string \<Rightarrow> nat option) \<Rightarrow> (Activity \<Rightarrow> string option) \<Rightarrow> string \<Rightarrow> Activity list
     \<Rightarrow> TimeSlot list \<Rightarrow> Preferences \<Rightarrow> DayPlan option" where
  "createDayPlan getDay affiliate d availableActivities fixedBookings prefs =
     (let dow = getDayOfWeek getDay d;
          schedule = getScheduleTemplate (pref_pace prefs);
          st = foldl (fillSlot affiliate availableActivities prefs dow)
                 (fixedBookings, set (map time fixedBookings)) schedule
      in case sortSlots (fst st) of
           None \<Rightarrow> None
         | Some sorted_slots \<Rightarrow>
             (let ss = addTravelTimes sorted_slots
              in Some \<lparr> date = d, dayOfWeek = dow, slots = ss,
                        totalCost = calculateTotalCost ss,
                        walkingDistance = calculateWalkingDistance ss,
                        warnings = generateWarnings ss dow \<rparr>))"

text \<open>
  The slot that one turn of the loop adds for a template entry, given the set of times
  taken when the turn starts: none when the time is taken or when no activity is
  selected.
\<close>

definition genSlot ::
  "(Activity \<Rightarrow> string option) \<Rightarrow> Activity list \<Rightarrow> Preferences \<Rightarrow> string option
     \<Rightarrow> string set \<Rightarrow> string \<times> string \<Rightarrow> TimeSlot option" where
  "genSlot affiliate acts prefs dow P e =
     (if fst e \<in> P then None
      else map_option (createTimeSlot affiliate (fst e))
             (selectBestActivity (snd e) acts prefs dow (fst e)))"

section \<open>Example corpus and collaborators\<close>

definition emptyMetadata :: Metadata where
  "emptyMetadata =
     \<lparr> md_id = None, md_destination = None, md_category = None, md_venues = None,
       md_budgetTier = None, md_successRate = None, md_userSatisfaction = None,
       md_source = None, md_lastUpdated = None, md_bookingPattern = None,
       md_localInsights = None, md_intent = None, md_phrases = None,
       md_confidence = None, md_mapsTo = None \<rparr>"

definition venueOf :: "string \<Rightarrow> string \<Rightarrow> string \<Rightarrow> Venue" where
  "venueOf n t p =
     \<lparr> v_name = n, v_type = t, v_address = None, v_priceRange = p,
       v_bookingMethod = ''door'', v_rating = 4.5, v_specialNotes = [] \<rparr>"

text \<open>Three hits of the pattern collection, in the index's order of similarity.\<close>

definition patternHits :: "Match list" where
  "patternHits =
     [\<lparr> score = 0.91,
         metadata = emptyMetadata
           \<lparr> md_destination := Some ''berlin'', md_budgetTier := Some ''low'',
             md_venues := Some (Inl ''[venues of berlin nightlife]''),
             md_source := Some ''curated'' \<rparr> \<rparr>,
      \<lparr> score = 0.66,
         metadata = emptyMetadata
           \<lparr> md_destination := Some ''berlin'', md_budgetTier := Some ''low'',
             md_venues := Some (Inl ''[venues of berlin nightlife]'') \<rparr> \<rparr>,
      \<lparr> score = 0.42,
         metadata = emptyMetadata \<lparr> md_destination := Some ''berlin'' \<rparr> \<rparr>]"

text \<open>Two hits of the phrase collection.\<close>

definition phraseHits :: "Match list" where
  "phraseHits =
     [\<lparr> score = 0.8,
         metadata = emptyMetadata
           \<lparr> md_intent := Some ''budget_expression'', md_confidence := Some 0.8,
             md_phrases := Some ''[broke, students]'',
             md_mapsTo := Some ''{budgetTier: low}'' \<rparr> \<rparr>,
      \<lparr> score = 0.31, metadata = emptyMetadata \<rparr>]"

definition berlinClubs :: "Venue list" where
  "berlinClubs =
     [venueOf ''Berghain'' ''club'' (euro @ ''18-25''),
      venueOf ''Sisyphos'' ''club'' (euro @ ''10-15'')]"

definition lowBudget :: MapsTo where
  "lowBudget =
     \<lparr> m_budgetTier = Some ''low'', m_interests = None, m_pace = None,
       m_groupType = None \<rparr>"

text \<open>
  Collaborators that all answer. The completion text is not JSON, and \<open>JSON.parse\<close>
  rejects it.
\<close>

definition workingEnv :: Collaborators where
  "workingEnv =
     \<lparr> embedQuery = (\<lambda>q. Inr [0.1, 0.2]),
       indexQuery =
         (\<lambda>q. if f_type (q_filter q) = ''language_pattern'' then Inr phraseHits
               else Inr patternHits),
       chatCreate = (\<lambda>r. Inr (Some ''Sure! Here is the intent you asked for'')),
       parseVenues = (\<lambda>s. if s = ''[]'' then Inr [] else Inr berlinClubs),
       parseStrings =
         (\<lambda>s. if s = ''[]'' then Inr [] else Inr [''broke'', ''students'']),
       parseMapsTo = (\<lambda>s. Inr lowBudget),
       parseIntent = (\<lambda>s. Inl SyntaxError) \<rparr>"

text \<open>The same with an embedding client that is down, and with a completion client that
  fails or answers with no content.\<close>

definition embeddingDown :: Collaborators where
  "embeddingDown =
     workingEnv \<lparr> embedQuery := (\<lambda>q. Inl (ClientError ''embedding service unavailable'')) \<rparr>"

definition completionDown :: Collaborators where
  "completionDown =
     workingEnv \<lparr> chatCreate := (\<lambda>r. Inl (ClientError ''rate limit exceeded'')) \<rparr>"

definition completionEmpty :: Collaborators where
  "completionEmpty = workingEnv \<lparr> chatCreate := (\<lambda>r. Inr None) \<rparr>"

definition noFilters :: Filters where
  "noFilters =
     \<lparr> destinationFilter = Some ''Berlin'', budgetTierFilter = Some ''low'',
       categoryFilter = None \<rparr>"

text \<open>A guess whose confidence the completion client wrote as a percentage.\<close>

definition percentGuess :: PartialIntent where
  "percentGuess =
     emptyIntent \<lparr> pi_destination := Some ''berlin'', pi_confidence := Some 95 \<rparr>"

definition berlinIntent :: "string \<Rightarrow> TravelIntent" where
  "berlinIntent tier =
     \<lparr> destination = ''berlin'', dates = None, interests = [''clubs'', ''techno''],
       budgetTier = tier, groupType = ''friends'', pace = ''moderate'',
       originalText = ''broke students berlin clubs'', confidence = 0.8 \<rparr>"

text \<open>
  Two venues that differ in name and in type: a stall called Mustafa of type
  \<open>street_food\<close>, and a place called \<open>Mustafa_street\<close> of type \<open>food\<close>.
\<close>

definition mustafaStall :: Venue where
  "mustafaStall = venueOf ''Mustafa'' ''street_food'' (euro @ ''5'')"

definition mustafaStreet :: Venue where
  "mustafaStreet = venueOf ''Mustafa_street'' ''food'' (euro @ ''12'')"

definition kreuzbergFood :: "SuccessPattern RAGResult" where
  "kreuzbergFood =
     \<lparr> r_type = ''success_pattern'',
       r_content =
         \<lparr> sp_id = Some ''berlin_food_1'', sp_destination = Some ''berlin'',
           sp_category = Some ''food'', sp_venues = [mustafaStall, mustafaStreet],
           sp_budgetTier = Some ''low'', sp_successRate = 0.9, sp_userSatisfaction = 4.6,
           sp_source = Some ''curated'', sp_lastUpdated = None, sp_bookingPattern = '''',
           sp_localInsights = Some [''Queue before noon''] \<rparr>,
       r_confidence = 0.8, r_source = ''curated'' \<rparr>"

text \<open>Scheduler examples: a museum with no stated hours, and two bookings at 10:00.\<close>

definition pergamon :: Activity where
  "pergamon =
     \<lparr> name = ''Pergamon Museum'', type = ''museum'', address = ''Mitte'', duration = 120,
       price = euro @ ''12'', openTime = None, closeTime = None, booking = None,
       needsReservation = None, coordinates = None \<rparr>"

definition hotelCheckout :: Activity where
  "hotelCheckout =
     \<lparr> name = ''Hotel checkout'', type = ''hotel'', address = ''Mitte'', duration = 15,
       price = '''', openTime = None, closeTime = None, booking = None,
       needsReservation = None, coordinates = None \<rparr>"

definition walkingTour :: Activity where
  "walkingTour =
     \<lparr> name = ''Walking tour'', type = ''tour'', address = ''Kreuzberg'', duration = 120,
       price = euro @ ''15'', openTime = None, closeTime = None, booking = None,
       needsReservation = None, coordinates = None \<rparr>"

definition relaxedHigh :: Preferences where
  "relaxedHigh =
     \<lparr> pref_pace = Relaxed, pref_budget = ''high'', pref_interests = [''museum''],
       pref_groupType = ''couple'' \<rparr>"

definition mondays :: "string \<Rightarrow> nat option" where
  "mondays d = Some 1"

definition noAffiliate :: "Activity \<Rightarrow> string option" where
  "noAffiliate a = None"

text \<open>A dinner priced in dollars, and a cafe that suits a breakfast slot.\<close>

definition dollarDinner :: Activity where
  "dollarDinner =
     \<lparr> name = ''Diner'', type = ''restaurant'', address = ''Kreuzberg'', duration = 60,
       price = ''$20'', openTime = None, closeTime = None, booking = None,
       needsReservation = None, coordinates = None \<rparr>"

definition cornerCafe :: Activity where
  "cornerCafe =
     \<lparr> name = ''Corner Cafe'', type = ''cafe'', address = ''Mitte'', duration = 45,
       price = euro @ ''5'', openTime = None, closeTime = None, booking = None,
       needsReservation = None, coordinates = None \<rparr>"

definition guidedTour :: Activity where
  "guidedTour =
     \<lparr> name = ''Guided tour'', type = ''tour'', address = ''Mitte'', duration = 180,
       price = ''from '' @ euro @ ''120-150'', openTime = None, closeTime = None,
       booking = None, needsReservation = None, coordinates = None \<rparr>"

definition grandHotel :: Activity where
  "grandHotel =
     \<lparr> name = ''Grand Hotel'', type = ''hotel'', address = ''Mitte'', duration = 30,
       price = euro @ ''1,200'', openTime = None, closeTime = None, booking = None,
       needsReservation = None, coordinates = None \<rparr>"

section \<open>Opening hours: properties\<close>

lemma timeToMinutes_2300: "timeToMinutes ''23:00'' = Some 1380"
  by (simp add: timeToMinutes_def Number_def isDigit_def parseDigits_def digitValue_def)

lemma timeToMinutes_0600: "timeToMinutes ''06:00'' = Some 360"
  by (simp add: timeToMinutes_def Number_def isDigit_def parseDigits_def digitValue_def)

lemma timeToMinutes_0100: "timeToMinutes ''01:00'' = Some 60"
  by (simp add: timeToMinutes_def Number_def isDigit_def parseDigits_def digitValue_def)

lemma timeToMinutes_1200: "timeToMinutes ''12:00'' = Some 720"
  by (simp add: timeToMinutes_def Number_def isDigit_def parseDigits_def digitValue_def)

lemma tresor_not_berghain: "\<not> str_includes (toLowerCase ''Tresor'') ''berghain''"
  by (simp add: toLowerCase_def toLowerChar_def)

text \<open>
  Claim C8. The Berghain-on-Monday closure is checked first and wins whatever the hours
  fields say. For every other activity and day: an activity with no stated opening or
  closing time is open at every time; an activity whose closing time is numerically
  earlier than its opening time is open at \<open>t\<close> iff \<open>t \<ge> open\<close> or \<open>t \<le> close\<close>. The
  club open 23:00 to 06:00 is open at 01:00 and closed at 12:00.
\<close>

theorem isOpenAt_rules:
  "(str_includes (toLowerCase (name a)) ''berghain'' \<longrightarrow> \<not> isOpenAt a t (Some ''Monday''))
   \<and> (\<not> (str_includes (toLowerCase (name a)) ''berghain'' \<and> d = Some ''Monday'') \<longrightarrow>
        (\<not> truthy (openTime a) \<or> \<not> truthy (closeTime a)) \<longrightarrow> isOpenAt a t d)
   \<and> (\<not> (str_includes (toLowerCase (name a)) ''berghain'' \<and> d = Some ''Monday'') \<longrightarrow>
        openTime a = Some ot \<longrightarrow> closeTime a = Some ct \<longrightarrow>
        timeToMinutes ot = Some openMin \<longrightarrow> timeToMinutes ct = Some closeMin \<longrightarrow>
        closeMin < openMin \<longrightarrow> timeToMinutes t = Some timeMin \<longrightarrow>
        isOpenAt a t d = (timeMin \<ge> openMin \<or> timeMin \<le> closeMin))
   \<and> isOpenAt overnightClub ''01:00'' d
   \<and> \<not> isOpenAt overnightClub ''12:00'' d"
proof (intro conjI impI)
  assume "str_includes (toLowerCase (name a)) ''berghain''"
  then show "\<not> isOpenAt a t (Some ''Monday'')"
    by (simp add: isOpenAt_def)
next
  assume "\<not> (str_includes (toLowerCase (name a)) ''berghain'' \<and> d = Some ''Monday'')"
    and "\<not> truthy (openTime a) \<or> \<not> truthy (closeTime a)"
  then show "isOpenAt a t d"
    by (auto simp: isOpenAt_def)
next
  assume nb: "\<not> (str_includes (toLowerCase (name a)) ''berghain'' \<and> d = Some ''Monday'')"
    and o: "openTime a = Some ot" and c: "closeTime a = Some ct"
    and om: "timeToMinutes ot = Some openMin" and cm: "timeToMinutes ct = Some closeMin"
    and lt: "closeMin < openMin" and tm: "timeToMinutes t = Some timeMin"
  have "ot \<noteq> []" "ct \<noteq> []"
    using om cm by (auto simp: timeToMinutes_def Number_def)
  then have "truthy (openTime a)" "truthy (closeTime a)"
    using o c by (simp_all add: truthy_def)
  then show "isOpenAt a t d = (timeMin \<ge> openMin \<or> timeMin \<le> closeMin)"
    using nb o c om cm lt tm
    by (auto simp: isOpenAt_def js_lt_def js_ge_def js_le_def)
next
  show "isOpenAt overnightClub ''01:00'' d"
    using tresor_not_berghain
    by (simp add: isOpenAt_def overnightClub_def truthy_def timeToMinutes_2300
        timeToMinutes_0600 timeToMinutes_0100 js_lt_def js_ge_def js_le_def)
next
  show "\<not> isOpenAt overnightClub ''12:00'' d"
    using tresor_not_berghain
    by (simp add: isOpenAt_def overnightClub_def truthy_def timeToMinutes_2300
        timeToMinutes_0600 timeToMinutes_1200 js_lt_def js_ge_def js_le_def)
qed

lemma berghain_is_berghain: "str_includes (toLowerCase (name berghainClub)) ''berghain''"
  by (simp add: berghainClub_def toLowerCase_def toLowerChar_def)

lemma tiergarten_not_berghain: "\<not> str_includes (toLowerCase (name tiergarten)) ''berghain''"
  by (simp add: tiergarten_def toLowerCase_def toLowerChar_def)

theorem isOpenAt_rules_witness:
  "\<not> isOpenAt berghainClub ''23:30'' (Some ''Monday'')
   \<and> isOpenAt tiergarten ''03:00'' (Some ''Monday'')
   \<and> isOpenAt overnightClub ''01:00'' (Some ''Monday'')
     = ((1380::nat) \<le> 60 \<or> (60::nat) \<le> 360)
   \<and> isOpenAt overnightClub ''01:00'' (Some ''Monday'')
   \<and> \<not> isOpenAt overnightClub ''12:00'' (Some ''Monday'')"
proof -
  have a: "\<not> isOpenAt berghainClub ''23:30'' (Some ''Monday'')"
    using isOpenAt_rules [of berghainClub "''23:30''"] berghain_is_berghain by blast
  have nb: "\<not> (str_includes (toLowerCase (name tiergarten)) ''berghain''
              \<and> Some ''Monday'' = Some ''Monday'')"
    using tiergarten_not_berghain by simp
  have nh: "\<not> truthy (openTime tiergarten) \<or> \<not> truthy (closeTime tiergarten)"
    by (simp add: tiergarten_def truthy_def)
  have b: "isOpenAt tiergarten ''03:00'' (Some ''Monday'')"
    using isOpenAt_rules [of tiergarten "''03:00''" "Some ''Monday''"] nb nh by blast
  have nc: "\<not> (str_includes (toLowerCase (name overnightClub)) ''berghain''
              \<and> Some ''Monday'' = Some ''Monday'')"
    using tresor_not_berghain by (simp add: overnightClub_def)
  have oc: "openTime overnightClub = Some ''23:00''" "closeTime overnightClub = Some ''06:00''"
    by (simp_all add: overnightClub_def)
  have c: "isOpenAt overnightClub ''01:00'' (Some ''Monday'')
             = ((1380::nat) \<le> 60 \<or> (60::nat) \<le> 360)"
    using isOpenAt_rules [of overnightClub "''01:00''" "Some ''Monday''" "''23:00''"
        "''06:00''" 1380 360 60]
      nc oc timeToMinutes_2300 timeToMinutes_0600 timeToMinutes_0100
    by simp
  have d: "isOpenAt overnightClub ''01:00'' (Some ''Monday'')
           \<and> \<not> isOpenAt overnightClub ''12:00'' (Some ''Monday'')"
    using isOpenAt_rules [of overnightClub "''01:00''" "Some ''Monday''"] by blast
  from a b c d show ?thesis by blast
qed

section \<open>Total cost: properties\<close>

lemma euroAmountAt_Suc: "euroAmountAt (c # s) (Suc i) = euroAmountAt s i"
  by (simp add: euroAmountAt_def add.commute)

lemma prefix_euro_take: "prefix euro p \<longleftrightarrow> take 3 p = euro"
proof
  assume "prefix euro p"
  then obtain r where "p = euro @ r" by (auto simp: prefix_def)
  then show "take 3 p = euro" by (simp add: euro_def)
next
  assume "take 3 p = euro"
  then have "p = euro @ drop 3 p" by (metis append_take_drop_id)
  then show "prefix euro p" by (metis prefixI)
qed

lemma digits_follow: "takeWhile isDigit (drop 3 p) \<noteq> [] \<longleftrightarrow> 3 < length p \<and> isDigit (p ! 3)"
proof (cases "drop 3 p")
  case Nil
  then show ?thesis by simp
next
  case (Cons d r)
  then have "3 < length p" by (metis drop_eq_Nil list.distinct(1) not_le)
  moreover from this Cons have "p ! 3 = d" by (metis Cons_nth_drop_Suc list.inject)
  ultimately show ?thesis using Cons by simp
qed

lemma euroAmountAt_0:
  "euroAmountAt p 0 \<longleftrightarrow> prefix euro p \<and> takeWhile isDigit (drop 3 p) \<noteq> []"
  by (simp add: euroAmountAt_def prefix_euro_take digits_follow)

lemma positions_Cons:
  "filter (euroAmountAt (c # s)) [0..<length (c # s)]
     = (if euroAmountAt (c # s) 0 then [0] else [])
       @ map Suc (filter (euroAmountAt s) [0..<length s])"
proof -
  have "[0..<length (c # s)] = 0 # map Suc [0..<length s]"
    by (metis length_Cons map_Suc_upt upt_conv_Cons zero_less_Suc)
  then show ?thesis
    by (simp only: filter.simps filter_map comp_def euroAmountAt_Suc) simp
qed

lemma first_shift:
  "(case map Suc js of [] \<Rightarrow> a | i # _ \<Rightarrow> g i) = (case js of [] \<Rightarrow> a | j # _ \<Rightarrow> g (Suc j))"
  by (cases js) simp_all

lemma match_positions:
  "matchEuroDigits p
     = (case filter (euroAmountAt p) [0..<length p] of
          [] \<Rightarrow> None
        | i # _ \<Rightarrow> Some (takeWhile isDigit (drop (i + 3) p)))"
proof (induction p)
  case Nil
  then show ?case by simp
next
  case (Cons c s)
  show ?case
  proof (cases "euroAmountAt (c # s) 0")
    case True
    then have pm: "prefix euro (c # s) \<and> takeWhile isDigit (drop 3 (c # s)) \<noteq> []"
      using euroAmountAt_0 [of "c # s"] by blast
    have m: "matchEuroDigits (c # s) = Some (takeWhile isDigit (drop 3 (c # s)))"
      using pm by simp
    have pos: "filter (euroAmountAt (c # s)) [0..<length (c # s)]
            = 0 # map Suc (filter (euroAmountAt s) [0..<length s])"
      unfolding positions_Cons using True by simp
    show ?thesis
      unfolding m pos by simp
  next
    case False
    then have nm: "\<not> (prefix euro (c # s) \<and> takeWhile isDigit (drop 3 (c # s)) \<noteq> [])"
      using euroAmountAt_0 [of "c # s"] by blast
    have m: "matchEuroDigits (c # s) = matchEuroDigits s"
      using nm by auto
    have pos: "filter (euroAmountAt (c # s)) [0..<length (c # s)]
            = map Suc (filter (euroAmountAt s) [0..<length s])"
      unfolding positions_Cons using False by simp
    show ?thesis
      unfolding m Cons.IH pos first_shift by (simp only: add_Suc drop_Suc_Cons)
  qed
qed

lemma token_of_match:
  "(case matchEuroDigits p of Some digits \<Rightarrow> parseDigits digits | None \<Rightarrow> 0) = euroToken p"
  by (simp add: match_positions euroToken_def split: list.splits)

lemma total_loop:
  "foldl (\<lambda>total slot. case matchEuroDigits (price (activity slot)) of
             Some digits \<Rightarrow> total + parseDigits digits | None \<Rightarrow> total) acc ss
   = acc + sum_list (map (\<lambda>s. euroToken (price (activity s))) ss)"
  by (induction ss arbitrary: acc) (auto simp: token_of_match [symmetric] split: option.splits)

lemma str_includes_Cons: "str_includes s sub \<Longrightarrow> str_includes (c # s) sub"
  by simp

lemma str_includes_iff: "str_includes s sub \<longleftrightarrow> (\<exists>pre post. s = pre @ sub @ post)"
proof (induction s)
  case Nil
  then show ?case by auto
next
  case (Cons c s)
  show ?case
  proof
    assume "str_includes (c # s) sub"
    then consider "prefix sub (c # s)" | "str_includes s sub" by auto
    then show "\<exists>pre post. c # s = pre @ sub @ post"
    proof cases
      case 1
      then obtain post where "c # s = sub @ post" by (auto simp: prefix_def)
      then have "c # s = [] @ sub @ post" by simp
      then show ?thesis by blast
    next
      case 2
      then obtain pre post where "s = pre @ sub @ post" using Cons.IH by blast
      then have "c # s = (c # pre) @ sub @ post" by simp
      then show ?thesis by blast
    qed
  next
    assume "\<exists>pre post. c # s = pre @ sub @ post"
    then obtain pre post where e: "c # s = pre @ sub @ post" by blast
    show "str_includes (c # s) sub"
    proof (cases pre)
      case Nil
      then have "prefix sub (c # s)" using e by (simp add: prefix_def)
      then show ?thesis by simp
    next
      case (Cons a pre')
      then have "s = pre' @ sub @ post" using e by simp
      then show ?thesis using Cons.IH by auto
    qed
  qed
qed

lemma match_None:
  "\<forall>d. isDigit d \<longrightarrow> \<not> str_includes s (euro @ [d]) \<Longrightarrow> matchEuroDigits s = None"
proof (induction s)
  case Nil
  then show ?case by simp
next
  case (Cons c s)
  have no: "\<not> (prefix euro (c # s) \<and> takeWhile isDigit (drop 3 (c # s)) \<noteq> [])"
  proof
    assume a: "prefix euro (c # s) \<and> takeWhile isDigit (drop 3 (c # s)) \<noteq> []"
    then obtain r where r: "c # s = euro @ r" by (auto simp: prefix_def)
    then have "drop 3 (c # s) = r" by (simp add: euro_def)
    with a obtain d r' where "r = d # r'" "isDigit d"
      by (cases r) (auto split: if_splits)
    with r have "prefix (euro @ [d]) (c # s)" by (simp add: prefix_def)
    then have "str_includes (c # s) (euro @ [d])" by simp
    with Cons.prems \<open>isDigit d\<close> show False by blast
  qed
  have "\<forall>d. isDigit d \<longrightarrow> \<not> str_includes s (euro @ [d])"
    using Cons.prems by auto
  then have "matchEuroDigits s = None" by (rule Cons.IH)
  with no show ?case by simp
qed

lemma euro_not_digit: "\<not> isDigit (CHR 0xE2)"
  by (simp add: isDigit_def)

lemma match_first:
  assumes "\<forall>d. isDigit d \<longrightarrow> \<not> str_includes pre (euro @ [d])" "ds \<noteq> []" "list_all isDigit ds"
    "rest = [] \<or> \<not> isDigit (hd rest)"
  shows "matchEuroDigits (pre @ euro @ ds @ rest) = Some ds"
  using assms(1)
proof (induction pre)
  case Nil
  have "takeWhile isDigit (ds @ rest) = ds"
    using assms(3,4) by (cases rest) (auto simp: list_all_iff)
  then show ?case using assms(2) by (simp add: euro_def)
next
  case (Cons c pre)
  have ni: "\<forall>d. isDigit d \<longrightarrow> \<not> str_includes pre (euro @ [d])"
    using Cons.prems by auto
  have np: "\<And>d. isDigit d \<Longrightarrow> \<not> prefix (euro @ [d]) (c # pre)"
    using Cons.prems by auto
  have "\<not> (prefix euro (c # pre @ euro @ ds @ rest)
           \<and> takeWhile isDigit (drop 3 (c # pre @ euro @ ds @ rest)) \<noteq> [])"
  proof
    assume p: "prefix euro (c # pre @ euro @ ds @ rest)
           \<and> takeWhile isDigit (drop 3 (c # pre @ euro @ ds @ rest)) \<noteq> []"
    show False
    proof (cases pre)
      case Nil
      with p show ?thesis by (simp add: euro_def)
    next
      case (Cons a p1)
      note c1 = this
      show ?thesis
      proof (cases p1)
        case Nil
        with p c1 show ?thesis by (simp add: euro_def)
      next
        case (Cons b p2)
        note c2 = this
        show ?thesis
        proof (cases p2)
          case Nil
          with p c1 c2 show ?thesis by (simp add: euro_def isDigit_def)
        next
          case (Cons d p3)
          with p c1 c2 have "isDigit d" "prefix (euro @ [d]) (c # pre)"
            by (auto simp: euro_def split: if_splits)
          with np show ?thesis by blast
        qed
      qed
    qed
  qed
  then have "matchEuroDigits ((c # pre) @ euro @ ds @ rest)
             = matchEuroDigits (pre @ euro @ ds @ rest)"
    by auto
  with Cons.IH [OF ni] show ?case by simp
qed

lemma showNat_0: "showNat 0 = ''0''"
  by (simp add: showNat.simps)

lemma one_slot:
  "calculateTotalCost [s]
     = euro @ showNat (case matchEuroDigits (price (activity s)) of
                         Some digits \<Rightarrow> parseDigits digits | None \<Rightarrow> 0)"
  by (simp add: calculateTotalCost_def split: option.splits)

text \<open>
  Claim C10, as stated, fails: a dinner priced \<open>$20\<close> has the numeric price token 20, and
  the total cost of a plan that holds it is \<open>\<euro>0\<close>.
\<close>

theorem calculateTotalCost_counterexample:
  "numericToken (price dollarDinner) = 20
   \<and> calculateTotalCost [slotAt ''19:30'' dollarDinner] = euro @ ''0''
   \<and> calculateTotalCost [slotAt ''19:30'' dollarDinner]
       \<noteq> euro @ showNat (\<Sum>s\<leftarrow>[slotAt ''19:30'' dollarDinner]. numericToken (price (activity s)))"
proof -
  have n: "numericToken (price dollarDinner) = 20"
    by (simp add: numericToken_def dollarDinner_def isDigit_def parseDigits_def digitValue_def)
  have c: "calculateTotalCost [slotAt ''19:30'' dollarDinner] = euro @ ''0''"
    by (simp add: one_slot slotAt_def dollarDinner_def euro_def showNat_0)
  have "showNat 20 = ''20''" by code_simp
  with n c show ?thesis by (simp add: slotAt_def)
qed

text \<open>
  Claim C10, amended. The total cost is the euro sign followed by the sum, over the slots,
  of each price string's euro amount: the number written by the digits that directly
  follow the first euro sign standing before a digit. A price string in which no euro
  sign stands directly before a digit (another currency, the amount before the sign, a
  blank after the sign, no amount, the empty string) contributes 0. A price string that
  reads \<open>pre\<close>, euro sign, digits \<open>ds\<close>, \<open>rest\<close>, with no euro sign before a digit in
  \<open>pre\<close> and no digit at the head of \<open>rest\<close>, contributes the value of \<open>ds\<close>.
\<close>

theorem calculateTotalCost_sum:
  "calculateTotalCost ss
     = euro @ showNat (\<Sum>s\<leftarrow>ss. euroToken (price (activity s)))
   \<and> ((\<forall>d. isDigit d \<longrightarrow> \<not> str_includes (price (activity s)) (euro @ [d])) \<longrightarrow>
        calculateTotalCost [s] = euro @ ''0'')
   \<and> ((\<forall>d. isDigit d \<longrightarrow> \<not> str_includes pre (euro @ [d])) \<longrightarrow> ds \<noteq> [] \<longrightarrow>
        list_all isDigit ds \<longrightarrow> (rest = [] \<or> \<not> isDigit (hd rest)) \<longrightarrow>
        price (activity s) = pre @ euro @ ds @ rest \<longrightarrow>
        calculateTotalCost [s] = euro @ showNat (parseDigits ds))"
proof (intro conjI impI)
  show "calculateTotalCost ss
          = euro @ showNat (\<Sum>s\<leftarrow>ss. euroToken (price (activity s)))"
    unfolding calculateTotalCost_def by (simp add: total_loop)
next
  assume "\<forall>d. isDigit d \<longrightarrow> \<not> str_includes (price (activity s)) (euro @ [d])"
  then have "matchEuroDigits (price (activity s)) = None" by (rule match_None)
  then show "calculateTotalCost [s] = euro @ ''0''"
    by (simp add: one_slot showNat_0)
next
  assume "\<forall>d. isDigit d \<longrightarrow> \<not> str_includes pre (euro @ [d])" "ds \<noteq> []" "list_all isDigit ds"
    "rest = [] \<or> \<not> isDigit (hd rest)"
  then have "matchEuroDigits (pre @ euro @ ds @ rest) = Some ds" by (rule match_first)
  moreover assume "price (activity s) = pre @ euro @ ds @ rest"
  ultimately show "calculateTotalCost [s] = euro @ showNat (parseDigits ds)"
    by (simp add: one_slot)
qed

lemma showNat_135: "showNat 135 = ''135''"
  by code_simp

lemma showNat_1: "showNat (Suc 0) = ''1''"
  by (simp add: showNat.simps)

lemma euroToken_club: "euroToken (price overnightClub) = 15"
  by (simp add: token_of_match [symmetric] overnightClub_def euro_def isDigit_def
      parseDigits_def digitValue_def)

lemma euroToken_tour: "euroToken (price guidedTour) = 120"
  by (simp add: token_of_match [symmetric] guidedTour_def euro_def isDigit_def
      parseDigits_def digitValue_def)

lemma euroToken_dinner: "euroToken (price dollarDinner) = 0"
  by (simp add: token_of_match [symmetric] dollarDinner_def euro_def)

theorem calculateTotalCost_sum_witness:
  "calculateTotalCost
     [slotAt ''13:00'' guidedTour, slotAt ''19:30'' dollarDinner, slotAt ''23:00'' overnightClub]
     = euro @ ''135''
   \<and> calculateTotalCost [slotAt ''19:30'' dollarDinner] = euro @ ''0''
   \<and> calculateTotalCost [slotAt ''15:00'' grandHotel] = euro @ ''1''"
proof -
  have "calculateTotalCost
     [slotAt ''13:00'' guidedTour, slotAt ''19:30'' dollarDinner, slotAt ''23:00'' overnightClub]
     = euro @ showNat (\<Sum>s\<leftarrow>[slotAt ''13:00'' guidedTour, slotAt ''19:30'' dollarDinner,
                                slotAt ''23:00'' overnightClub]. euroToken (price (activity s)))"
    using calculateTotalCost_sum
      [of "[slotAt ''13:00'' guidedTour, slotAt ''19:30'' dollarDinner,
            slotAt ''23:00'' overnightClub]"]
    by blast
  then have a: "calculateTotalCost
     [slotAt ''13:00'' guidedTour, slotAt ''19:30'' dollarDinner, slotAt ''23:00'' overnightClub]
     = euro @ ''135''"
    by (simp add: slotAt_def euroToken_club euroToken_tour euroToken_dinner showNat_135)
  have nd: "\<forall>d. isDigit d \<longrightarrow> \<not> str_includes (price (activity (slotAt ''19:30'' dollarDinner)))
                                   (euro @ [d])"
    by (simp add: slotAt_def dollarDinner_def euro_def)
  have b: "calculateTotalCost [slotAt ''19:30'' dollarDinner] = euro @ ''0''"
    using calculateTotalCost_sum [where s = "slotAt ''19:30'' dollarDinner"] nd by blast
  have np: "\<forall>d. isDigit d \<longrightarrow> \<not> str_includes [] (euro @ [d])"
    by simp
  have pr: "price (activity (slotAt ''15:00'' grandHotel)) = [] @ euro @ ''1'' @ '',200''"
    by (simp add: slotAt_def grandHotel_def)
  have dg: "''1'' \<noteq> []" "list_all isDigit ''1''" "'',200'' = [] \<or> \<not> isDigit (hd '',200'')"
    by (simp_all add: isDigit_def)
  have "calculateTotalCost [slotAt ''15:00'' grandHotel] = euro @ showNat (parseDigits ''1'')"
    using calculateTotalCost_sum
      [where s = "slotAt ''15:00'' grandHotel"
         and pre = "[]" and ds = "''1''" and rest = "'',200''"] np pr dg
    by blast
  then have c: "calculateTotalCost [slotAt ''15:00'' grandHotel] = euro @ ''1''"
    by (simp add: parseDigits_def digitValue_def showNat_1)
  from a b c show ?thesis by blast
qed

section \<open>Retrieval layer: properties\<close>

lemma mapE_Inr:
  "mapE f xs = Inr ys \<Longrightarrow> list_all2 (\<lambda>x y. f x = Inr y) xs ys"
  by (induction xs arbitrary: ys) (auto split: sum.splits)

lemma list_all2_map_eq:
  "list_all2 (\<lambda>x y. g y = h x) xs ys \<Longrightarrow> map g ys = map h xs"
  by (induction rule: list_all2_induct) simp_all

lemma mapE_scores:
  assumes "mapE f xs = Inr ys" and "\<And>x y. f x = Inr y \<Longrightarrow> r_confidence y = score x"
  shows "map r_confidence ys = map score xs"
proof -
  have "list_all2 (\<lambda>x y. f x = Inr y) xs ys" using assms(1) by (rule mapE_Inr)
  then have "list_all2 (\<lambda>x y. r_confidence y = score x) xs ys"
    by (rule list_all2_mono) (simp add: assms(2))
  then show ?thesis by (rule list_all2_map_eq)
qed

lemma kept_scores:
  assumes "map r_confidence rs = map score (filter (\<lambda>m. thr \<le> score m) hits)"
  shows "(\<forall>r\<in>set rs. thr \<le> r_confidence r)
         \<and> map r_confidence rs = filter (\<lambda>s. thr \<le> s) (map score hits)
         \<and> (sorted_wrt (\<ge>) (map score hits) \<longrightarrow> sorted_wrt (\<ge>) (map r_confidence rs))"
proof -
  have eq: "map r_confidence rs = filter (\<lambda>s. thr \<le> s) (map score hits)"
    using assms by (simp add: filter_map comp_def)
  have "\<forall>s\<in>set (map r_confidence rs). thr \<le> s"
    unfolding eq by simp
  then have "\<forall>r\<in>set rs. thr \<le> r_confidence r" by simp
  moreover have "sorted_wrt (\<ge>) (map score hits) \<longrightarrow> sorted_wrt (\<ge>) (map r_confidence rs)"
    unfolding eq by (simp add: sorted_wrt_filter)
  ultimately show ?thesis using eq by blast
qed

text \<open>
  Claim C6. Whenever a query returns, every result has a score at or above the threshold
  of its collection (the configured threshold for patterns, the constant 0.6 for
  phrases), and the scores of the results are the scores of the index's hits with those
  below the threshold struck out: the order of the index is kept, so hits in descending
  similarity give results in descending similarity.
\<close>

theorem retrieval_threshold_order:
  "(querySuccessPatterns env cfg q fs = Inr rs \<longrightarrow>
      (\<exists>v hits. embedQuery env q = Inr v
         \<and> indexQuery env (successQuery cfg v fs) = Inr hits
         \<and> (\<forall>r\<in>set rs. confidenceThreshold cfg \<le> r_confidence r)
         \<and> map r_confidence rs = filter (\<lambda>s. confidenceThreshold cfg \<le> s) (map score hits)
         \<and> (sorted_wrt (\<ge>) (map score hits) \<longrightarrow> sorted_wrt (\<ge>) (map r_confidence rs))))
   \<and> (queryLanguagePatterns env q = Inr ls \<longrightarrow>
      (\<exists>v hits. embedQuery env q = Inr v
         \<and> indexQuery env (languageQuery v) = Inr hits
         \<and> (\<forall>r\<in>set ls. 0.6 \<le> r_confidence r)
         \<and> map r_confidence ls = filter (\<lambda>s. 0.6 \<le> s) (map score hits)
         \<and> (sorted_wrt (\<ge>) (map score hits) \<longrightarrow> sorted_wrt (\<ge>) (map r_confidence ls))))"
proof (intro conjI impI)
  assume a: "querySuccessPatterns env cfg q fs = Inr rs"
  from a obtain v where v: "embedQuery env q = Inr v"
    by (auto simp: querySuccessPatterns_def split: sum.splits)
  from a v obtain hits where h: "indexQuery env (successQuery cfg v fs) = Inr hits"
    by (auto simp: querySuccessPatterns_def split: sum.splits)
  from a v h have "map r_confidence rs
      = map score (filter (\<lambda>m. confidenceThreshold cfg \<le> score m) hits)"
    unfolding querySuccessPatterns_def
    by (simp, elim mapE_scores) (auto split: sum.splits)
  from kept_scores [OF this] v h
  show "\<exists>v hits. embedQuery env q = Inr v
         \<and> indexQuery env (successQuery cfg v fs) = Inr hits
         \<and> (\<forall>r\<in>set rs. confidenceThreshold cfg \<le> r_confidence r)
         \<and> map r_confidence rs = filter (\<lambda>s. confidenceThreshold cfg \<le> s) (map score hits)
         \<and> (sorted_wrt (\<ge>) (map score hits) \<longrightarrow> sorted_wrt (\<ge>) (map r_confidence rs))"
    by blast
next
  assume a: "queryLanguagePatterns env q = Inr ls"
  from a obtain v where v: "embedQuery env q = Inr v"
    by (auto simp: queryLanguagePatterns_def split: sum.splits)
  from a v obtain hits where h: "indexQuery env (languageQuery v) = Inr hits"
    by (auto simp: queryLanguagePatterns_def split: sum.splits)
  from a v h have "map r_confidence ls = map score (filter (\<lambda>m. 0.6 \<le> score m) hits)"
    unfolding queryLanguagePatterns_def
    by (simp, elim mapE_scores) (auto split: sum.splits)
  from kept_scores [OF this] v h
  show "\<exists>v hits. embedQuery env q = Inr v
         \<and> indexQuery env (languageQuery v) = Inr hits
         \<and> (\<forall>r\<in>set ls. 0.6 \<le> r_confidence r)
         \<and> map r_confidence ls = filter (\<lambda>s. 0.6 \<le> s) (map score hits)
         \<and> (sorted_wrt (\<ge>) (map score hits) \<longrightarrow> sorted_wrt (\<ge>) (map r_confidence ls))"
    by blast
qed

lemmas example_defs =
  workingEnv_def patternHits_def phraseHits_def emptyMetadata_def noFilters_def CONFIG_def
  successQuery_def languageQuery_def parseSuccessPattern_def parseLanguagePattern_def
  orElse_def truthy_def berlinClubs_def venueOf_def lowBudget_def

lemma patterns_returned:
  "\<exists>rs. querySuccessPatterns workingEnv CONFIG ''broke students berlin clubs'' noFilters = Inr rs"
  by (simp add: querySuccessPatterns_def example_defs)

lemma phrases_returned:
  "\<exists>ls. queryLanguagePatterns workingEnv ''broke students berlin clubs'' = Inr ls"
  by (simp add: queryLanguagePatterns_def example_defs)

theorem retrieval_threshold_order_witness:
  "map_sum id (map r_confidence)
     (querySuccessPatterns workingEnv CONFIG ''broke students berlin clubs'' noFilters)
     = Inr [0.91, 0.66]
   \<and> map_sum id (map r_confidence)
       (queryLanguagePatterns workingEnv ''broke students berlin clubs'') = Inr [0.8]"
proof -
  obtain rs where rs:
    "querySuccessPatterns workingEnv CONFIG ''broke students berlin clubs'' noFilters = Inr rs"
    using patterns_returned by blast
  obtain ls where ls:
    "queryLanguagePatterns workingEnv ''broke students berlin clubs'' = Inr ls"
    using phrases_returned by blast
  from retrieval_threshold_order
    [of workingEnv CONFIG "''broke students berlin clubs''" noFilters rs ls] rs ls
  obtain v hits w hits' where
    "indexQuery workingEnv (successQuery CONFIG v noFilters) = Inr hits"
    "map r_confidence rs = filter (\<lambda>s. confidenceThreshold CONFIG \<le> s) (map score hits)"
    "indexQuery workingEnv (languageQuery w) = Inr hits'"
    "map r_confidence ls = filter (\<lambda>s. 0.6 \<le> s) (map score hits')"
    by blast
  then have "map r_confidence rs = [0.91, 0.66]" "map r_confidence ls = [0.8]"
    by (auto simp: workingEnv_def successQuery_def languageQuery_def CONFIG_def
        patternHits_def phraseHits_def)
  with rs ls show ?thesis by simp
qed

section \<open>Intent extractor: properties\<close>

text \<open>
  Claim C2, as stated, fails: the confidence of the completion client's guess is not
  validated, and a guess of 95 gives a merged confidence of 95, outside \<open>[0.5, 1.0]\<close>.
\<close>

theorem merge_confidence_counterexample:
  "confidence (mergeIntents percentGuess emptyIntent ''berlin clubs'') = 95
   \<and> \<not> (0.5 \<le> confidence (mergeIntents percentGuess emptyIntent ''berlin clubs'')
        \<and> confidence (mergeIntents percentGuess emptyIntent ''berlin clubs'') \<le> 1.0)"
  by (simp add: mergeIntents_def percentGuess_def emptyIntent_def orZero_def)

text \<open>
  Claim C2, amended. The merged confidence is the maximum of the AI confidence, the
  pattern confidence and 0.5, a missing confidence counting as 0; it is never below 0.5,
  and it is at most 1.0 when neither input confidence exceeds 1.0.
\<close>

theorem merge_confidence:
  "0.5 \<le> confidence (mergeIntents ai pat t)
   \<and> (pi_confidence ai = Some a \<longrightarrow> pi_confidence pat = Some p \<longrightarrow>
        confidence (mergeIntents ai pat t) = max (max a p) 0.5)
   \<and> (pi_confidence ai = None \<longrightarrow> pi_confidence pat = Some p \<longrightarrow>
        confidence (mergeIntents ai pat t) = max p 0.5)
   \<and> (orZero (pi_confidence ai) \<le> 1 \<longrightarrow> orZero (pi_confidence pat) \<le> 1 \<longrightarrow>
        confidence (mergeIntents ai pat t) \<le> 1
        \<and> confidence (mergeIntents ai pat t)
            = Max {orZero (pi_confidence ai), orZero (pi_confidence pat), 0.5})"
  by (auto simp: mergeIntents_def orZero_def)

theorem merge_confidence_witness:
  "confidence (mergeIntents (emptyIntent \<lparr> pi_confidence := Some 0.7 \<rparr>)
       (emptyIntent \<lparr> pi_confidence := Some 0.9 \<rparr>) ''berlin clubs'') = 0.9
   \<and> confidence (mergeIntents emptyIntent
       (emptyIntent \<lparr> pi_confidence := Some 0.2 \<rparr>) ''berlin clubs'') = 0.5
   \<and> confidence (mergeIntents (emptyIntent \<lparr> pi_confidence := Some 0.7 \<rparr>)
       (emptyIntent \<lparr> pi_confidence := Some 0.9 \<rparr>) ''berlin clubs'') \<le> 1"
proof -
  have a: "confidence (mergeIntents (emptyIntent \<lparr> pi_confidence := Some 0.7 \<rparr>)
       (emptyIntent \<lparr> pi_confidence := Some 0.9 \<rparr>) ''berlin clubs'') = max (max 0.7 0.9) 0.5"
    using merge_confidence [of "emptyIntent \<lparr> pi_confidence := Some 0.7 \<rparr>"
        "emptyIntent \<lparr> pi_confidence := Some 0.9 \<rparr>" "''berlin clubs''" "0.7" "0.9"]
    by simp
  have b: "confidence (mergeIntents emptyIntent
       (emptyIntent \<lparr> pi_confidence := Some 0.2 \<rparr>) ''berlin clubs'') = max 0.2 0.5"
    using merge_confidence [of emptyIntent
        "emptyIntent \<lparr> pi_confidence := Some 0.2 \<rparr>" "''berlin clubs''" _ "0.2"]
    by (simp add: emptyIntent_def)
  have c: "confidence (mergeIntents (emptyIntent \<lparr> pi_confidence := Some 0.7 \<rparr>)
       (emptyIntent \<lparr> pi_confidence := Some 0.9 \<rparr>) ''berlin clubs'') \<le> 1"
    using merge_confidence [of "emptyIntent \<lparr> pi_confidence := Some 0.7 \<rparr>"
        "emptyIntent \<lparr> pi_confidence := Some 0.9 \<rparr>" "''berlin clubs''"]
    by (simp add: orZero_def)
  from a b c show ?thesis by simp
qed

text \<open>
  Claim C1, as stated, fails: with the embedding client down the phrase lookup throws, and
  \<open>extractIntent\<close> throws the same error instead of returning an intent.
\<close>

theorem extractIntent_counterexample:
  "extractIntent embeddingDown CONFIG ''broke students berlin clubs''
     = Inl (ClientError ''embedding service unavailable'')"
  by (simp add: extractIntent_def queryLanguagePatterns_def embeddingDown_def workingEnv_def)

text \<open>
  Claim C1, amended. An error of the phrase lookup is the error of \<open>extractIntent\<close>. When
  the phrase lookup returns, a failure of the completion client (the call fails, the
  answer has no content, or the content is not JSON) is absorbed: \<open>extractIntent\<close>
  returns the merge of the guess \<open>{ confidence: 0.3 }\<close> with the phrase patterns, an
  intent with an empty destination and a confidence of at least 0.5.
\<close>

theorem extractIntent_failures:
  "(queryLanguagePatterns env msg = Inl e \<longrightarrow> extractIntent env cfg msg = Inl e)
   \<and> (queryLanguagePatterns env msg = Inr lps \<longrightarrow>
        (chatCreate env (aiRequest cfg msg) = Inl e'
         \<or> chatCreate env (aiRequest cfg msg) = Inr None
         \<or> chatCreate env (aiRequest cfg msg) = Inr (Some '''')
         \<or> chatCreate env (aiRequest cfg msg) = Inr (Some c) \<and> parseIntent env c = Inl e') \<longrightarrow>
        extractIntent env cfg msg
          = Inr (mergeIntents degradedIntent (extractFromPatterns msg lps) msg)
        \<and> destination (mergeIntents degradedIntent (extractFromPatterns msg lps) msg) = ''''
        \<and> 0.5 \<le> confidence (mergeIntents degradedIntent (extractFromPatterns msg lps) msg))"
proof (intro conjI impI)
  assume "queryLanguagePatterns env msg = Inl e"
  then show "extractIntent env cfg msg = Inl e"
    by (simp add: extractIntent_def)
next
  assume l: "queryLanguagePatterns env msg = Inr lps"
    and f: "chatCreate env (aiRequest cfg msg) = Inl e'
         \<or> chatCreate env (aiRequest cfg msg) = Inr None
         \<or> chatCreate env (aiRequest cfg msg) = Inr (Some '''')
         \<or> chatCreate env (aiRequest cfg msg) = Inr (Some c) \<and> parseIntent env c = Inl e'"
  from f have "extractWithAI env cfg msg = JIntent degradedIntent"
    by (auto simp: extractWithAI_def truthy_def)
  with l show "extractIntent env cfg msg
          = Inr (mergeIntents degradedIntent (extractFromPatterns msg lps) msg)"
    by (simp add: extractIntent_def)
next
  show "destination (mergeIntents degradedIntent (extractFromPatterns msg lps) msg) = ''''"
    by (simp add: mergeIntents_def degradedIntent_def emptyIntent_def orElse_def truthy_def)
next
  show "0.5 \<le> confidence (mergeIntents degradedIntent (extractFromPatterns msg lps) msg)"
    by (simp add: mergeIntents_def)
qed

lemma phrases_of_example:
  "queryLanguagePatterns workingEnv ''broke students berlin clubs''
     = Inr [\<lparr> r_type = ''language_pattern'',
              r_content =
                \<lparr> lp_id = None, lp_intent = Some ''budget_expression'',
                  lp_phrases = [''broke'', ''students''], lp_confidence = 0.8,
                  lp_mapsTo = lowBudget, lp_examples = [] \<rparr>,
              r_confidence = 0.8, r_source = ''language_corpus'' \<rparr>]"
  by (simp add: queryLanguagePatterns_def example_defs)

lemma pattern_intent_of_example:
  "extractFromPatterns ''broke students berlin clubs''
     [\<lparr> r_type = ''language_pattern'',
        r_content =
          \<lparr> lp_id = None, lp_intent = Some ''budget_expression'',
            lp_phrases = [''broke'', ''students''], lp_confidence = 0.8,
            lp_mapsTo = lowBudget, lp_examples = [] \<rparr>,
        r_confidence = 0.8, r_source = ''language_corpus'' \<rparr>]
   = emptyIntent \<lparr> pi_budgetTier := Some ''low'', pi_confidence := Some 0.8 \<rparr>"
  by (simp add: extractFromPatterns_def applyPattern_def toLowerCase_def toLowerChar_def
      lowBudget_def truthy_def emptyIntent_def Let_def)

lemma parse_ignores_completion:
  "parseLanguagePattern (env \<lparr> chatCreate := f \<rparr>) md = parseLanguagePattern env md"
  by (simp add: parseLanguagePattern_def cong: sum.case_cong)

lemma lookup_ignores_completion:
  "queryLanguagePatterns (env \<lparr> chatCreate := f \<rparr>) q = queryLanguagePatterns env q"
  by (simp add: queryLanguagePatterns_def parse_ignores_completion cong: sum.case_cong)

theorem extractIntent_failures_witness:
  "extractIntent embeddingDown CONFIG ''broke students berlin clubs''
     = Inl (ClientError ''embedding service unavailable'')
   \<and> map_sum id (\<lambda>i. (destination i, budgetTier i, confidence i))
       (extractIntent completionDown CONFIG ''broke students berlin clubs'')
     = Inr ('''', ''low'', 0.8)
   \<and> map_sum id (\<lambda>i. (destination i, budgetTier i, confidence i))
       (extractIntent completionEmpty CONFIG ''broke students berlin clubs'')
     = Inr ('''', ''low'', 0.8)
   \<and> map_sum id (\<lambda>i. (destination i, budgetTier i, confidence i))
       (extractIntent workingEnv CONFIG ''broke students berlin clubs'')
     = Inr ('''', ''low'', 0.8)"
proof -
  let ?msg = "''broke students berlin clubs''"
  let ?lps = "[\<lparr> r_type = ''language_pattern'',
        r_content =
          \<lparr> lp_id = None, lp_intent = Some ''budget_expression'',
            lp_phrases = [''broke'', ''students''], lp_confidence = 0.8,
            lp_mapsTo = lowBudget, lp_examples = [] \<rparr>,
        r_confidence = 0.8, r_source = ''language_corpus'' \<rparr>]"
  let ?merged = "mergeIntents degradedIntent (extractFromPatterns ?msg ?lps) ?msg"
  have m: "(destination ?merged, budgetTier ?merged, confidence ?merged) = ('''', ''low'', 0.8)"
    unfolding pattern_intent_of_example
    by (simp add: mergeIntents_def degradedIntent_def emptyIntent_def orElse_def truthy_def
        orZero_def)
  have down: "queryLanguagePatterns embeddingDown ?msg
                = Inl (ClientError ''embedding service unavailable'')"
    by (simp add: queryLanguagePatterns_def embeddingDown_def workingEnv_def)
  have a: "extractIntent embeddingDown CONFIG ?msg
             = Inl (ClientError ''embedding service unavailable'')"
    using extractIntent_failures [where env = embeddingDown and msg = ?msg and cfg = CONFIG]
      down by blast
  have l1: "queryLanguagePatterns completionDown ?msg = Inr ?lps"
    using phrases_of_example
    by (simp add: lookup_ignores_completion completionDown_def)
  have c1: "chatCreate completionDown (aiRequest CONFIG ?msg)
              = Inl (ClientError ''rate limit exceeded'')"
    by (simp add: completionDown_def)
  have b: "extractIntent completionDown CONFIG ?msg = Inr ?merged"
    using extractIntent_failures [where env = completionDown and msg = ?msg and lps = ?lps
        and cfg = CONFIG and e' = "ClientError ''rate limit exceeded''"] l1 c1 by blast
  have l2: "queryLanguagePatterns completionEmpty ?msg = Inr ?lps"
    using phrases_of_example
    by (simp add: lookup_ignores_completion completionEmpty_def)
  have c2: "chatCreate completionEmpty (aiRequest CONFIG ?msg) = Inr None"
    by (simp add: completionEmpty_def)
  have c: "extractIntent completionEmpty CONFIG ?msg = Inr ?merged"
    using extractIntent_failures [where env = completionEmpty and msg = ?msg and lps = ?lps
        and cfg = CONFIG] l2 c2 by blast
  have c3: "chatCreate workingEnv (aiRequest CONFIG ?msg)
              = Inr (Some ''Sure! Here is the intent you asked for'')
            \<and> parseIntent workingEnv ''Sure! Here is the intent you asked for''
              = Inl SyntaxError"
    by (simp add: workingEnv_def)
  have d: "extractIntent workingEnv CONFIG ?msg = Inr ?merged"
    using extractIntent_failures [where env = workingEnv and msg = ?msg and lps = ?lps
        and cfg = CONFIG and e' = SyntaxError
        and c = "''Sure! Here is the intent you asked for''"] phrases_of_example c3
    by blast
  from a b c d m show ?thesis by simp
qed

section \<open>Fusion and recommendation: properties\<close>

lemma sum_loop:
  "foldl (\<lambda>sum p. sum + r_confidence p) acc ps = acc + sum_list (map r_confidence ps)"
  by (induction ps arbitrary: acc) simp_all

text \<open>
  Claim C5. The two functions of the confidence fusion compute the formulas of the
  specification: the recommendation confidence is the average pattern score plus
  \<open>min(venueCount/5, 1) * 0.2\<close>, capped at 1.0, and 0.3 when there is no pattern or no
  venue; the overall confidence is \<open>0.3 * intent + 0.4 * avg + 0.3 * recommendation\<close>
  with 0.3 for the average of an empty pattern list.
\<close>

theorem fusion_confidence:
  "calculateRecommendationConfidence patterns vs
     = spec_recommendationConfidence (map r_confidence patterns) (length vs)
   \<and> calculateOverallConfidence intent patterns recommendations
     = spec_overallConfidence (confidence intent) (map r_confidence patterns)
         (rec_confidence recommendations)"
  by (simp add: calculateRecommendationConfidence_def spec_recommendationConfidence_def
      calculateOverallConfidence_def spec_overallConfidence_def avg_def sum_loop Let_def)

text \<open>
  Claim C3. With an empty pattern list the recommendation holds exactly one venue, named
  from the primary interest and the destination, whose price range is the table entry of
  the intent's budget tier; its confidence is 0.3, it has no alternatives, and its
  reasoning begins by saying that there are no success patterns for the destination yet.
\<close>

theorem fallback_recommendation:
  "r = generateRecommendations env cfg intent [] q \<Longrightarrow>
   length (venues r) = 1
   \<and> map v_name (venues r) = [''Top '' @ primaryInterest intent @ '' in '' @ destination intent]
   \<and> (budgetTier intent = ''low'' \<longrightarrow> map v_priceRange (venues r) = [euro @ ''5-20''])
   \<and> (budgetTier intent = ''medium'' \<longrightarrow> map v_priceRange (venues r) = [euro @ ''20-50''])
   \<and> (budgetTier intent = ''high'' \<longrightarrow> map v_priceRange (venues r) = [euro @ ''50-100''])
   \<and> (budgetTier intent = ''luxury'' \<longrightarrow> map v_priceRange (venues r) = [euro @ ''100+''])
   \<and> rec_confidence r = 0.3
   \<and> alternatives r = []
   \<and> prefix (''I don'' @ [CHR 0x27] @ ''t have specific success patterns for '' @ destination intent
             @ '' yet'') (reasoning r)"
  by (simp add: generateRecommendations_def generateFallbackRecommendations_def
      getBudgetRange_def)

theorem fallback_recommendation_witness:
  "map v_priceRange (venues (generateRecommendations workingEnv CONFIG (berlinIntent ''low'')
       [] ''broke students berlin clubs'')) = [euro @ ''5-20'']
   \<and> map v_priceRange (venues (generateRecommendations workingEnv CONFIG
       (berlinIntent ''medium'') [] ''berlin clubs'')) = [euro @ ''20-50'']
   \<and> map v_priceRange (venues (generateRecommendations workingEnv CONFIG
       (berlinIntent ''high'') [] ''berlin clubs'')) = [euro @ ''50-100'']
   \<and> map v_priceRange (venues (generateRecommendations workingEnv CONFIG
       (berlinIntent ''luxury'') [] ''berlin clubs'')) = [euro @ ''100+'']
   \<and> map v_name (venues (generateRecommendations workingEnv CONFIG (berlinIntent ''low'')
       [] ''broke students berlin clubs'')) = [''Top clubs in berlin'']
   \<and> rec_confidence (generateRecommendations workingEnv CONFIG (berlinIntent ''low'')
       [] ''broke students berlin clubs'') = 0.3"
proof -
  have a: "map v_priceRange (venues (generateRecommendations workingEnv CONFIG
       (berlinIntent ''low'') [] ''broke students berlin clubs'')) = [euro @ ''5-20'']
     \<and> map v_name (venues (generateRecommendations workingEnv CONFIG (berlinIntent ''low'')
       [] ''broke students berlin clubs'')) = [''Top clubs in berlin'']
     \<and> rec_confidence (generateRecommendations workingEnv CONFIG (berlinIntent ''low'')
       [] ''broke students berlin clubs'') = 0.3"
    using fallback_recommendation [OF refl, of workingEnv CONFIG "berlinIntent ''low''"
        "''broke students berlin clubs''"]
    by (simp add: berlinIntent_def primaryInterest_def)
  have b: "map v_priceRange (venues (generateRecommendations workingEnv CONFIG
       (berlinIntent ''medium'') [] ''berlin clubs'')) = [euro @ ''20-50'']"
    using fallback_recommendation [OF refl, of workingEnv CONFIG "berlinIntent ''medium''"
        "''berlin clubs''"]
    by (simp add: berlinIntent_def)
  have c: "map v_priceRange (venues (generateRecommendations workingEnv CONFIG
       (berlinIntent ''high'') [] ''berlin clubs'')) = [euro @ ''50-100'']"
    using fallback_recommendation [OF refl, of workingEnv CONFIG "berlinIntent ''high''"
        "''berlin clubs''"]
    by (simp add: berlinIntent_def)
  have d: "map v_priceRange (venues (generateRecommendations workingEnv CONFIG
       (berlinIntent ''luxury'') [] ''berlin clubs'')) = [euro @ ''100+'']"
    using fallback_recommendation [OF refl, of workingEnv CONFIG "berlinIntent ''luxury''"
        "''berlin clubs''"]
    by (simp add: berlinIntent_def)
  from a b c d show ?thesis by blast
qed

lemma venueKey_pairKey: "pairKey v = pairKey w \<Longrightarrow> venueKey v = venueKey w"
  by (simp add: pairKey_def venueKey_def)

lemma key_seen_iff:
  assumes "\<And>w. w \<in> A \<Longrightarrow> venueKey v = venueKey w \<Longrightarrow> pairKey v = pairKey w"
  shows "venueKey v \<in> venueKey ` A \<longleftrightarrow> pairKey v \<in> pairKey ` A"
proof
  assume "venueKey v \<in> venueKey ` A"
  then obtain a where a: "a \<in> A" "venueKey v = venueKey a" by (rule imageE)
  then have "pairKey v = pairKey a" by (rule assms)
  with a(1) show "pairKey v \<in> pairKey ` A" by (rule image_eqI [rotated])
next
  assume "pairKey v \<in> pairKey ` A"
  then obtain a where a: "a \<in> A" "pairKey v = pairKey a" by (rule imageE)
  from a(2) have "venueKey v = venueKey a" by (rule venueKey_pairKey)
  with a(1) show "venueKey v \<in> venueKey ` A" by (rule image_eqI [rotated])
qed

lemma dedupLoop_pairs:
  assumes "\<And>v w. v \<in> A \<union> set vs \<Longrightarrow> w \<in> A \<union> set vs \<Longrightarrow> venueKey v = venueKey w
             \<Longrightarrow> pairKey v = pairKey w"
  shows "dedupLoop (venueKey ` A) vs = dedupPairs (pairKey ` A) vs"
  using assms
proof (induction vs arbitrary: A)
  case Nil
  show ?case by simp
next
  case (Cons v vs)
  have iff: "venueKey v \<in> venueKey ` A \<longleftrightarrow> pairKey v \<in> pairKey ` A"
  proof (rule key_seen_iff)
    fix w assume "w \<in> A" "venueKey v = venueKey w"
    then show "pairKey v = pairKey w"
      using Cons.prems [of v w] by simp
  qed
  show ?case
  proof (cases "venueKey v \<in> venueKey ` A")
    case True
    have "dedupLoop (venueKey ` A) vs = dedupPairs (pairKey ` A) vs"
    proof (rule Cons.IH)
      fix x w assume "x \<in> A \<union> set vs" "w \<in> A \<union> set vs" "venueKey x = venueKey w"
      then show "pairKey x = pairKey w"
        using Cons.prems [of x w] by simp
    qed
    moreover have "pairKey v \<in> pairKey ` A" using True iff by blast
    ultimately show ?thesis using True by simp
  next
    case False
    have "dedupLoop (venueKey ` insert v A) vs = dedupPairs (pairKey ` insert v A) vs"
    proof (rule Cons.IH)
      fix x w assume "x \<in> insert v A \<union> set vs" "w \<in> insert v A \<union> set vs"
        "venueKey x = venueKey w"
      then show "pairKey x = pairKey w"
        using Cons.prems [of x w] by simp
    qed
    then have "dedupLoop (insert (venueKey v) (venueKey ` A)) vs
             = dedupPairs (insert (pairKey v) (pairKey ` A)) vs"
      by (simp only: image_insert)
    moreover have "pairKey v \<notin> pairKey ` A" using False iff by blast
    ultimately show ?thesis using False by simp
  qed
qed

lemma deduplicate_agrees:
  assumes "\<And>v w. v \<in> set vs \<Longrightarrow> w \<in> set vs \<Longrightarrow> venueKey v = venueKey w
             \<Longrightarrow> pairKey v = pairKey w"
  shows "deduplicateVenues vs = spec_deduplicate vs"
proof -
  have "dedupLoop (venueKey ` {}) vs = dedupPairs (pairKey ` {}) vs"
    by (rule dedupLoop_pairs) (rule assms, simp_all)
  then show ?thesis
    by (simp add: deduplicateVenues_def spec_deduplicate_def)
qed

lemma setInOrder_distinct: "distinct (setInOrder seen xs) \<and> set (setInOrder seen xs) = set xs - seen"
  by (induction xs arbitrary: seen) auto

lemma newSet_distinct: "distinct (newSet xs)"
  using setInOrder_distinct [of "{}" xs] by (simp add: newSet_def)

lemma set_newSet: "set (newSet xs) = set xs"
  using setInOrder_distinct [of "{}" xs] by (simp add: newSet_def)

text \<open>
  The fused recommendation of a non-empty pattern list. \<open>deduplicateVenues\<close> keys a
  venue by the string of its lower-cased name, an underscore and its type. On a venue list
  in which equal key strings come only from equal (lowercase(name), type) pairs it is the
  deduplication of the specification, and the recommendation is as described: the first 5
  surviving venues of the first 3 patterns, the next 3 as alternatives, and at most 5
  distinct tips.
\<close>

lemma fused_recommendation:
  assumes ne: "successPatterns \<noteq> []"
    and r: "r = generateRecommendations env cfg intent successPatterns q"
    and vs: "allVenues = concat (map (\<lambda>p. sp_venues (r_content p)) (take 3 successPatterns))"
    and nc: "\<And>v w. v \<in> set allVenues \<Longrightarrow> w \<in> set allVenues \<Longrightarrow> venueKey v = venueKey w
               \<Longrightarrow> pairKey v = pairKey w"
  shows "venues r = take 5 (spec_deduplicate allVenues)
         \<and> alternatives r = take 3 (drop 5 (spec_deduplicate allVenues))
         \<and> distinct (localTips r) \<and> length (localTips r) \<le> 5"
proof -
  have d: "deduplicateVenues allVenues = spec_deduplicate allVenues"
    by (rule deduplicate_agrees) (rule nc)
  have v: "venues r = take 5 (deduplicateVenues allVenues)"
    using ne by (simp add: r vs generateRecommendations_def Let_def slice_def)
  have a: "alternatives r = take 3 (drop 5 (deduplicateVenues allVenues))"
    using ne by (simp add: r vs generateRecommendations_def Let_def slice_def)
  obtain xs where l: "localTips r = take 5 (newSet xs)"
    using ne by (simp add: r generateRecommendations_def Let_def slice_def)
  have "distinct (localTips r)" unfolding l by (rule distinct_take) (rule newSet_distinct)
  moreover have "length (localTips r) \<le> 5" unfolding l by simp
  ultimately show ?thesis using v a d by simp
qed

text \<open>
  Claim C4 at a concrete input. The two venues differ in lower-cased name and in type, so
  they are not duplicates under the key (lowercase(name), type); both have the key string
  \<open>mustafa_street_food\<close>, and the second one is removed: the recommendation built from
  a pattern that lists both has one venue.
\<close>

theorem deduplicateVenues_key_collision:
  "(toLowerCase (v_name mustafaStall), v_type mustafaStall)
     \<noteq> (toLowerCase (v_name mustafaStreet), v_type mustafaStreet)
   \<and> venueKey mustafaStall = ''mustafa_street_food''
   \<and> venueKey mustafaStreet = ''mustafa_street_food''
   \<and> deduplicateVenues [mustafaStall, mustafaStreet] = [mustafaStall]
   \<and> venues (generateRecommendations workingEnv CONFIG (berlinIntent ''low'')
        [kreuzbergFood] ''cheap food berlin'') = [mustafaStall]
   \<and> alternatives (generateRecommendations workingEnv CONFIG (berlinIntent ''low'')
        [kreuzbergFood] ''cheap food berlin'') = []"
proof -
  have k1: "venueKey mustafaStall = ''mustafa_street_food''"
    by (simp add: venueKey_def mustafaStall_def venueOf_def toLowerCase_def toLowerChar_def)
  have k2: "venueKey mustafaStreet = ''mustafa_street_food''"
    by (simp add: venueKey_def mustafaStreet_def venueOf_def toLowerCase_def toLowerChar_def)
  have ne: "(toLowerCase (v_name mustafaStall), v_type mustafaStall)
     \<noteq> (toLowerCase (v_name mustafaStreet), v_type mustafaStreet)"
    by (simp add: mustafaStall_def mustafaStreet_def venueOf_def)
  have d: "deduplicateVenues [mustafaStall, mustafaStreet] = [mustafaStall]"
    by (simp add: deduplicateVenues_def k1 k2)
  have "venues (generateRecommendations workingEnv CONFIG (berlinIntent ''low'')
        [kreuzbergFood] ''cheap food berlin'') = [mustafaStall]
     \<and> alternatives (generateRecommendations workingEnv CONFIG (berlinIntent ''low'')
        [kreuzbergFood] ''cheap food berlin'') = []"
    by (simp add: generateRecommendations_def slice_def kreuzbergFood_def d Let_def)
  with k1 k2 ne d show ?thesis by blast
qed

section \<open>Day scheduler: properties of the plan\<close>

lemma time_createTimeSlot [simp]: "time (createTimeSlot affiliate t a) = t"
  by (simp add: createTimeSlot_def)

lemma activity_createTimeSlot [simp]: "activity (createTimeSlot affiliate t a) = a"
  by (simp add: createTimeSlot_def)

lemma genSlot_time: "genSlot affiliate acts prefs dow P e = Some s \<Longrightarrow> time s = fst e \<and> fst e \<notin> P"
  by (auto simp: genSlot_def split: if_splits)

lemma map_filter_cong_set:
  "(\<And>x. x \<in> set xs \<Longrightarrow> f x = g x) \<Longrightarrow> List.map_filter f xs = List.map_filter g xs"
  by (induction xs) (auto split: option.splits)

lemma fill_loop:
  "distinct (map fst sched) \<Longrightarrow>
   foldl (fillSlot affiliate acts prefs dow) (ss, P) sched
     = (ss @ List.map_filter (genSlot affiliate acts prefs dow P) sched,
        P \<union> time ` set (List.map_filter (genSlot affiliate acts prefs dow P) sched))"
proof (induction sched arbitrary: ss P)
  case Nil
  then show ?case by simp
next
  case (Cons e sched)
  from Cons.prems have d: "distinct (map fst sched)" and ne: "fst e \<notin> fst ` set sched"
    by auto
  show ?case
  proof (cases "genSlot affiliate acts prefs dow P e")
    case None
    then have "fillSlot affiliate acts prefs dow (ss, P) e = (ss, P)"
      by (auto simp: fillSlot_def genSlot_def split: option.splits if_splits)
    with None Cons.IH [OF d] show ?thesis
      by simp
  next
    case (Some s)
    then have st: "fillSlot affiliate acts prefs dow (ss, P) e = (ss @ [s], insert (fst e) P)"
      by (auto simp: fillSlot_def genSlot_def split: option.splits if_splits)
    have ts: "time s = fst e" using Some genSlot_time by blast
    have "\<And>x. x \<in> set sched \<Longrightarrow>
            genSlot affiliate acts prefs dow (insert (fst e) P) x
              = genSlot affiliate acts prefs dow P x"
    proof -
      fix x assume "x \<in> set sched"
      then have "fst x \<noteq> fst e" using ne by (metis image_eqI)
      then show "genSlot affiliate acts prefs dow (insert (fst e) P) x
              = genSlot affiliate acts prefs dow P x"
        by (simp add: genSlot_def)
    qed
    then have eq: "List.map_filter (genSlot affiliate acts prefs dow (insert (fst e) P)) sched
                 = List.map_filter (genSlot affiliate acts prefs dow P) sched"
      by (rule map_filter_cong_set)
    show ?thesis
      using Cons.IH [OF d, of "ss @ [s]" "insert (fst e) P"] st Some ts eq
      by simp
  qed
qed

lemma map_filter_times:
  "map time (List.map_filter (genSlot affiliate acts prefs dow P) sched)
     = map fst (filter (\<lambda>e. genSlot affiliate acts prefs dow P e \<noteq> None) sched)"
proof (induction sched)
  case Nil
  then show ?case by simp
next
  case (Cons e sched)
  then show ?case
    by (cases "genSlot affiliate acts prefs dow P e")
      (auto dest: genSlot_time)
qed

lemma template_distinct: "distinct (map fst (getScheduleTemplate p))"
  by (cases p) (simp_all add: getScheduleTemplate_def)


lemma template_wellformed:
  "e \<in> set (getScheduleTemplate p) \<Longrightarrow> timeToMinutes (fst e) \<noteq> None"
  by (cases p)
    (auto simp: getScheduleTemplate_def timeToMinutes_def Number_def isDigit_def)

lemma travelFrom_core:
  "map (\<lambda>s. (time s, activity s, affiliateLink s, tips s)) (travelFrom prev ss)
     = map (\<lambda>s. (time s, activity s, affiliateLink s, tips s)) ss"
  by (induction ss arbitrary: prev) simp_all

lemma addTravelTimes_core:
  "map (\<lambda>s. (time s, activity s, affiliateLink s, tips s)) (addTravelTimes ss)
     = map (\<lambda>s. (time s, activity s, affiliateLink s, tips s)) ss"
  by (cases ss) (simp_all add: addTravelTimes_def travelFrom_core)

lemma sortSlots_Some:
  "\<forall>s\<in>set ss. timeToMinutes (time s) \<noteq> None \<Longrightarrow>
   sortSlots ss = Some (sort_key (\<lambda>s. the (timeToMinutes (time s))) ss)"
  by (simp add: sortSlots_def list_all_iff)

lemma plan_slots:
  assumes "createDayPlan getDay affiliate d acts fixedBookings prefs = Some plan"
  shows "\<exists>sorted_slots.
           sortSlots (fixedBookings
              @ List.map_filter
                  (genSlot affiliate acts prefs (getDayOfWeek getDay d)
                     (set (map time fixedBookings)))
                  (getScheduleTemplate (pref_pace prefs))) = Some sorted_slots
           \<and> slots plan = addTravelTimes sorted_slots"
  using assms
  by (auto simp: createDayPlan_def Let_def fill_loop [OF template_distinct]
      split: option.splits)

lemma gen_times_template:
  "set (map time (List.map_filter (genSlot affiliate acts prefs dow P) sched))
     \<subseteq> fst ` set sched - P"
  by (auto simp: map_filter_times genSlot_def split: if_splits)

lemma addTravelTimes_times: "map time (addTravelTimes ss) = map time ss"
proof -
  have "map fst (map (\<lambda>s. (time s, activity s, affiliateLink s, tips s)) (addTravelTimes ss))
      = map fst (map (\<lambda>s. (time s, activity s, affiliateLink s, tips s)) ss)"
    by (simp only: addTravelTimes_core)
  then show ?thesis by (simp add: comp_def)
qed

lemma plan_exists:
  assumes wf: "\<forall>b\<in>set fixedBookings. timeToMinutes (time b) \<noteq> None"
  shows "\<exists>plan. createDayPlan getDay affiliate d acts fixedBookings prefs = Some plan"
proof -
  let ?gen = "List.map_filter
                (genSlot affiliate acts prefs (getDayOfWeek getDay d)
                   (set (map time fixedBookings)))
                (getScheduleTemplate (pref_pace prefs))"
  have "\<forall>s\<in>set ?gen. timeToMinutes (time s) \<noteq> None"
  proof
    fix s assume "s \<in> set ?gen"
    then have "time s \<in> set (map time ?gen)" by simp
    then have "time s \<in> fst ` set (getScheduleTemplate (pref_pace prefs))"
      using gen_times_template by blast
    then obtain e where "e \<in> set (getScheduleTemplate (pref_pace prefs))" "time s = fst e"
      by (auto simp: image_iff)
    then show "timeToMinutes (time s) \<noteq> None"
      using template_wellformed by metis
  qed
  with wf have "\<forall>s\<in>set (fixedBookings @ ?gen). timeToMinutes (time s) \<noteq> None"
    by auto
  then have "sortSlots (fixedBookings @ ?gen)
               = Some (sort_key (\<lambda>s. the (timeToMinutes (time s))) (fixedBookings @ ?gen))"
    by (rule sortSlots_Some)
  then show ?thesis
    by (simp add: createDayPlan_def Let_def fill_loop [OF template_distinct])
qed

lemma plan_core:
  assumes "createDayPlan getDay affiliate d acts fixedBookings prefs = Some plan"
  shows "mset (map (\<lambda>s. (time s, activity s, affiliateLink s, tips s)) (slots plan))
           = mset (map (\<lambda>s. (time s, activity s, affiliateLink s, tips s))
                    (fixedBookings
                     @ List.map_filter
                         (genSlot affiliate acts prefs (getDayOfWeek getDay d)
                            (set (map time fixedBookings)))
                         (getScheduleTemplate (pref_pace prefs))))
         \<and> sorted (map (\<lambda>s. the (timeToMinutes (time s))) (slots plan))"
proof -
  let ?all = "fixedBookings
                     @ List.map_filter
                         (genSlot affiliate acts prefs (getDayOfWeek getDay d)
                            (set (map time fixedBookings)))
                         (getScheduleTemplate (pref_pace prefs))"
  from plan_slots [OF assms] obtain sorted_slots where
    s: "sortSlots ?all = Some sorted_slots" and p: "slots plan = addTravelTimes sorted_slots"
    by blast
  from s have ss: "sorted_slots = sort_key (\<lambda>s. the (timeToMinutes (time s))) ?all"
    by (auto simp: sortSlots_def split: if_splits)
  have "mset (map (\<lambda>s. (time s, activity s, affiliateLink s, tips s)) (slots plan))
      = mset (map (\<lambda>s. (time s, activity s, affiliateLink s, tips s)) sorted_slots)"
    by (simp only: p addTravelTimes_core)
  also have "\<dots> = mset (map (\<lambda>s. (time s, activity s, affiliateLink s, tips s)) ?all)"
    unfolding ss by simp
  finally have m: "mset (map (\<lambda>s. (time s, activity s, affiliateLink s, tips s)) (slots plan))
      = mset (map (\<lambda>s. (time s, activity s, affiliateLink s, tips s)) ?all)" .
  have "map (\<lambda>s. the (timeToMinutes (time s))) (slots plan)
      = map (\<lambda>t. the (timeToMinutes t)) (map time (slots plan))"
    by (simp add: comp_def)
  also have "\<dots> = map (\<lambda>t. the (timeToMinutes t)) (map time sorted_slots)"
    by (simp only: p addTravelTimes_times)
  also have "\<dots> = map (\<lambda>s. the (timeToMinutes (time s))) sorted_slots"
    by (simp add: comp_def)
  finally have "sorted (map (\<lambda>s. the (timeToMinutes (time s))) (slots plan))"
    unfolding ss by (simp add: sorted_sort_key)
  with m show ?thesis by blast
qed

lemma template_minutes_distinct:
  "distinct (map (\<lambda>e. the (timeToMinutes (fst e))) (getScheduleTemplate p))"
  by (cases p)
    (simp_all add: getScheduleTemplate_def timeToMinutes_def Number_def isDigit_def
      parseDigits_def digitValue_def)

lemma gen_minutes:
  "map (\<lambda>s. the (timeToMinutes (time s)))
     (List.map_filter (genSlot affiliate acts prefs dow P) sched)
   = map (\<lambda>e. the (timeToMinutes (fst e)))
       (filter (\<lambda>e. genSlot affiliate acts prefs dow P e \<noteq> None) sched)"
proof -
  have "map (\<lambda>s. the (timeToMinutes (time s)))
          (List.map_filter (genSlot affiliate acts prefs dow P) sched)
      = map (\<lambda>t. the (timeToMinutes t))
          (map time (List.map_filter (genSlot affiliate acts prefs dow P) sched))"
    by (simp add: comp_def)
  also have "\<dots> = map (\<lambda>t. the (timeToMinutes t))
          (map fst (filter (\<lambda>e. genSlot affiliate acts prefs dow P e \<noteq> None) sched))"
    by (simp only: map_filter_times)
  finally show ?thesis by (simp add: comp_def)
qed

text \<open>
  Claim C7, amended. Take fixed bookings whose times are clock times (digits, a colon,
  digits) and such that a fixed time on the same minute as a time of the pace's template
  is written as the template writes it. Then \<open>createDayPlan\<close> returns a plan whose slots
  are in non-decreasing order of minutes, and every fixed booking is in the plan with its
  time, activity, link and tips. The minutes of the plan's slots are the minutes of the
  fixed bookings together with the minutes \<open>gms\<close> of the generated slots, which are
  pairwise different and differ from the minute of every fixed booking: a generated slot
  never takes the time of a fixed booking. So when the fixed bookings are on pairwise
  different minutes, no two slots of the plan have the same time.
\<close>

theorem createDayPlan_slots:
  assumes wf: "\<forall>b\<in>set fixedBookings. timeToMinutes (time b) \<noteq> None"
    and same: "\<forall>b\<in>set fixedBookings. \<forall>e\<in>set (getScheduleTemplate (pref_pace prefs)).
                 timeToMinutes (time b) = timeToMinutes (fst e) \<longrightarrow> time b = fst e"
  shows "\<exists>plan gms.
           createDayPlan getDay affiliate d acts fixedBookings prefs = Some plan
           \<and> sorted (map (\<lambda>s. the (timeToMinutes (time s))) (slots plan))
           \<and> (\<forall>b\<in>set fixedBookings. \<exists>s\<in>set (slots plan).
                 time s = time b \<and> activity s = activity b
                 \<and> affiliateLink s = affiliateLink b \<and> tips s = tips b)
           \<and> mset (map (\<lambda>s. the (timeToMinutes (time s))) (slots plan))
               = mset (map (\<lambda>s. the (timeToMinutes (time s))) fixedBookings) + mset gms
           \<and> distinct gms
           \<and> set gms \<inter> set (map (\<lambda>s. the (timeToMinutes (time s))) fixedBookings) = {}
           \<and> (distinct (map (\<lambda>s. the (timeToMinutes (time s))) fixedBookings) \<longrightarrow>
                distinct (map (\<lambda>s. the (timeToMinutes (time s))) (slots plan)))"
proof -
  let ?core = "\<lambda>s. (time s, activity s, affiliateLink s, tips s)"
  let ?min = "\<lambda>s. the (timeToMinutes (time s))"
  let ?tpl = "getScheduleTemplate (pref_pace prefs)"
  let ?P = "set (map time fixedBookings)"
  let ?g = "genSlot affiliate acts prefs (getDayOfWeek getDay d) ?P"
  let ?gen = "List.map_filter ?g ?tpl"
  let ?gms = "map ?min ?gen"
  from plan_exists [OF wf] obtain plan where
    p: "createDayPlan getDay affiliate d acts fixedBookings prefs = Some plan"
    by blast
  from plan_core [OF p] have
    m: "mset (map ?core (slots plan)) = mset (map ?core (fixedBookings @ ?gen))"
    and srt: "sorted (map ?min (slots plan))"
    by blast+
  have fixed: "\<forall>b\<in>set fixedBookings. \<exists>s\<in>set (slots plan).
                 time s = time b \<and> activity s = activity b
                 \<and> affiliateLink s = affiliateLink b \<and> tips s = tips b"
  proof
    fix b assume "b \<in> set fixedBookings"
    then have "?core b \<in> set (map ?core (fixedBookings @ ?gen))" by simp
    then have "?core b \<in># mset (map ?core (fixedBookings @ ?gen))" by (simp only: set_mset_mset)
    then have "?core b \<in># mset (map ?core (slots plan))" by (simp only: m)
    then have "?core b \<in> set (map ?core (slots plan))" by (simp only: set_mset_mset)
    then obtain s where "s \<in> set (slots plan)" "?core s = ?core b" by auto
    then show "\<exists>s\<in>set (slots plan).
                 time s = time b \<and> activity s = activity b
                 \<and> affiliateLink s = affiliateLink b \<and> tips s = tips b"
      by auto
  qed
  have "image_mset (\<lambda>c. the (timeToMinutes (fst c))) (mset (map ?core (slots plan)))
      = image_mset (\<lambda>c. the (timeToMinutes (fst c))) (mset (map ?core (fixedBookings @ ?gen)))"
    by (simp only: m)
  then have mins: "mset (map ?min (slots plan)) = mset (map ?min fixedBookings) + mset ?gms"
    by (simp add: comp_def multiset.map_comp)
  have dg: "distinct ?gms"
    unfolding gen_minutes
    by (rule distinct_map_filter) (rule template_minutes_distinct)
  have disj: "set ?gms \<inter> set (map ?min fixedBookings) = {}"
  proof (rule ccontr)
    assume "set ?gms \<inter> set (map ?min fixedBookings) \<noteq> {}"
    then obtain n where n1: "n \<in> set ?gms" and n2: "n \<in> set (map ?min fixedBookings)"
      by blast
    from n1 obtain e where e: "e \<in> set ?tpl" "?g e \<noteq> None" "n = the (timeToMinutes (fst e))"
      unfolding gen_minutes by auto
    from n2 obtain b where b: "b \<in> set fixedBookings" "n = the (timeToMinutes (time b))"
      by auto
    have "timeToMinutes (fst e) \<noteq> None" using e(1) by (rule template_wellformed)
    moreover have "timeToMinutes (time b) \<noteq> None" using wf b(1) by blast
    ultimately have "timeToMinutes (time b) = timeToMinutes (fst e)"
      using e(3) b(2) by auto
    with same b(1) e(1) have "time b = fst e" by blast
    with b(1) have "fst e \<in> ?P" by force
    then have "?g e = None" by (simp add: genSlot_def)
    with e(2) show False by blast
  qed
  have dist: "distinct (map ?min fixedBookings) \<longrightarrow> distinct (map ?min (slots plan))"
  proof
    assume "distinct (map ?min fixedBookings)"
    with dg disj have "distinct (map ?min fixedBookings @ ?gms)" by auto
    moreover have "mset (map ?min (slots plan)) = mset (map ?min fixedBookings @ ?gms)"
      using mins by simp
    ultimately show "distinct (map ?min (slots plan))"
      using mset_eq_imp_distinct_iff by blast
  qed
  from p srt fixed mins dg disj dist show ?thesis by blast
qed

lemma sort_key_head:
  assumes "sort_key f xs = a # rest"
  shows "a \<in> set xs \<and> (\<forall>y\<in>set xs. f a \<le> f y)
         \<and> a = hd (filter (\<lambda>y. f y = f a) xs)"
proof -
  have s: "set xs = set (a # rest)" using assms by (metis set_sort)
  have "sorted (map f (a # rest))" using assms by (metis sorted_sort_key)
  then have "\<forall>y\<in>set rest. f a \<le> f y" by simp
  with s have le: "\<forall>y\<in>set xs. f a \<le> f y" by auto
  have "filter (\<lambda>y. f y = f a) xs = filter (\<lambda>y. f y = f a) (sort_key f xs)"
    by (simp add: sort_key_stable)
  also have "\<dots> = a # filter (\<lambda>y. f y = f a) rest" by (simp add: assms)
  finally have "hd (filter (\<lambda>y. f y = f a) xs) = a" by simp
  with s le show ?thesis by auto
qed

lemma selectBestActivity_Some:
  assumes "selectBestActivity ty acts prefs dow t = Some a"
  shows "a \<in> set acts \<and> isSuitable ty prefs dow t a
         \<and> (\<forall>b\<in>set acts. isSuitable ty prefs dow t b \<longrightarrow>
               scoreActivity b (pref_interests prefs) \<le> scoreActivity a (pref_interests prefs))
         \<and> a = hd (filter (\<lambda>b. isSuitable ty prefs dow t b
                     \<and> scoreActivity b (pref_interests prefs)
                         = scoreActivity a (pref_interests prefs)) acts)"
proof -
  let ?f = "\<lambda>a. - int (scoreActivity a (pref_interests prefs))"
  let ?su = "filter (isSuitable ty prefs dow t) acts"
  from assms obtain rest where "sort_key ?f ?su = a # rest"
    by (auto simp: selectBestActivity_def Let_def split: list.splits)
  from sort_key_head [OF this]
  have 1: "a \<in> set ?su" and 2: "\<forall>y\<in>set ?su. ?f a \<le> ?f y"
    and 3: "a = hd (filter (\<lambda>y. ?f y = ?f a) ?su)"
    by blast+
  have "filter (\<lambda>y. ?f y = ?f a) ?su
      = filter (\<lambda>b. isSuitable ty prefs dow t b
                     \<and> scoreActivity b (pref_interests prefs)
                         = scoreActivity a (pref_interests prefs)) acts"
    by (auto intro: filter_cong)
  with 1 2 3 show ?thesis by auto
qed

lemma selectBestActivity_None:
  "selectBestActivity ty acts prefs dow t = None
     \<longleftrightarrow> (\<forall>b\<in>set acts. \<not> isSuitable ty prefs dow t b)"
proof -
  let ?f = "\<lambda>a. - int (scoreActivity a (pref_interests prefs))"
  let ?su = "filter (isSuitable ty prefs dow t) acts"
  have "selectBestActivity ty acts prefs dow t = None \<longleftrightarrow> sort_key ?f ?su = []"
    by (auto simp: selectBestActivity_def Let_def split: list.splits)
  also have "\<dots> \<longleftrightarrow> ?su = []"
    by (metis length_sort length_0_conv)
  also have "\<dots> \<longleftrightarrow> (\<forall>b\<in>set acts. \<not> isSuitable ty prefs dow t b)"
    by (simp add: filter_empty_conv)
  finally show ?thesis .
qed

lemma map_map_filter:
  "map f (List.map_filter g xs) = List.map_filter (\<lambda>x. map_option f (g x)) xs"
  by (induction xs) (auto split: option.splits)

text \<open>
  Claim C9, amended. The generated slots are, one for each template entry whose time is
  not the time of a fixed booking and for which an activity is selected, that entry's time
  with the activity \<open>selectBestActivity\<close> returns for it. The selection looks at all the
  available activities, whatever the earlier slots got: it returns a suitable activity of
  the highest interest score, and none exactly when no available activity is suitable.
  The same activity may fill several slots.
\<close>

theorem generated_slots_selection:
  assumes "createDayPlan getDay affiliate d acts fixedBookings prefs = Some plan"
  shows "mset (map (\<lambda>s. (time s, activity s)) (slots plan))
           = mset (map (\<lambda>s. (time s, activity s)) fixedBookings)
             + mset (List.map_filter
                       (\<lambda>e. if fst e \<in> set (map time fixedBookings) then None
                            else map_option (Pair (fst e))
                                   (selectBestActivity (snd e) acts prefs
                                      (getDayOfWeek getDay d) (fst e)))
                       (getScheduleTemplate (pref_pace prefs)))
         \<and> (\<forall>ty t a. selectBestActivity ty acts prefs (getDayOfWeek getDay d) t = Some a \<longrightarrow>
               a \<in> set acts \<and> isSuitable ty prefs (getDayOfWeek getDay d) t a
               \<and> (\<forall>b\<in>set acts. isSuitable ty prefs (getDayOfWeek getDay d) t b \<longrightarrow>
                     scoreActivity b (pref_interests prefs)
                       \<le> scoreActivity a (pref_interests prefs)))
         \<and> (\<forall>ty t. selectBestActivity ty acts prefs (getDayOfWeek getDay d) t = None \<longleftrightarrow>
               (\<forall>b\<in>set acts. \<not> isSuitable ty prefs (getDayOfWeek getDay d) t b))"
proof (intro conjI)
  let ?core = "\<lambda>s. (time s, activity s, affiliateLink s, tips s)"
  let ?gen = "List.map_filter
                (genSlot affiliate acts prefs (getDayOfWeek getDay d)
                   (set (map time fixedBookings)))
                (getScheduleTemplate (pref_pace prefs))"
  from plan_core [OF assms] have
    m: "mset (map ?core (slots plan)) = mset (map ?core (fixedBookings @ ?gen))"
    by blast
  have "image_mset (\<lambda>c. (fst c, fst (snd c))) (mset (map ?core (slots plan)))
      = image_mset (\<lambda>c. (fst c, fst (snd c))) (mset (map ?core (fixedBookings @ ?gen)))"
    by (simp only: m)
  then have a: "mset (map (\<lambda>s. (time s, activity s)) (slots plan))
      = mset (map (\<lambda>s. (time s, activity s)) fixedBookings)
        + mset (map (\<lambda>s. (time s, activity s)) ?gen)"
    by (simp add: comp_def multiset.map_comp)
  have b: "map (\<lambda>s. (time s, activity s)) ?gen
      = List.map_filter
                       (\<lambda>e. if fst e \<in> set (map time fixedBookings) then None
                            else map_option (Pair (fst e))
                                   (selectBestActivity (snd e) acts prefs
                                      (getDayOfWeek getDay d) (fst e)))
                       (getScheduleTemplate (pref_pace prefs))"
    unfolding map_map_filter
    by (rule map_filter_cong_set) (auto simp: genSlot_def option.map_comp comp_def)
  show "mset (map (\<lambda>s. (time s, activity s)) (slots plan))
           = mset (map (\<lambda>s. (time s, activity s)) fixedBookings)
             + mset (List.map_filter
                       (\<lambda>e. if fst e \<in> set (map time fixedBookings) then None
                            else map_option (Pair (fst e))
                                   (selectBestActivity (snd e) acts prefs
                                      (getDayOfWeek getDay d) (fst e)))
                       (getScheduleTemplate (pref_pace prefs)))"
    unfolding b [symmetric] by (rule a)
next
  show "\<forall>ty t a. selectBestActivity ty acts prefs (getDayOfWeek getDay d) t = Some a \<longrightarrow>
               a \<in> set acts \<and> isSuitable ty prefs (getDayOfWeek getDay d) t a
               \<and> (\<forall>b\<in>set acts. isSuitable ty prefs (getDayOfWeek getDay d) t b \<longrightarrow>
                     scoreActivity b (pref_interests prefs)
                       \<le> scoreActivity a (pref_interests prefs))"
  proof (intro allI impI)
    fix ty t a
    assume s: "selectBestActivity ty acts prefs (getDayOfWeek getDay d) t = Some a"
    from selectBestActivity_Some [OF s]
    show "a \<in> set acts \<and> isSuitable ty prefs (getDayOfWeek getDay d) t a
               \<and> (\<forall>b\<in>set acts. isSuitable ty prefs (getDayOfWeek getDay d) t b \<longrightarrow>
                     scoreActivity b (pref_interests prefs)
                       \<le> scoreActivity a (pref_interests prefs))"
      by blast
  qed
next
  show "\<forall>ty t. selectBestActivity ty acts prefs (getDayOfWeek getDay d) t = None \<longleftrightarrow>
               (\<forall>b\<in>set acts. \<not> isSuitable ty prefs (getDayOfWeek getDay d) t b)"
    by (intro allI) (rule selectBestActivity_None)
qed

lemmas clock_defs = timeToMinutes_def Number_def isDigit_def parseDigits_def digitValue_def

lemma timeToMinutes_1000: "timeToMinutes ''10:00'' = Some 600"
  by (simp add: clock_defs)

text \<open>
  Claim C7, as stated, fails: two fixed bookings at 10:00 (a hotel checkout and a tour)
  are both kept, and the plan has two slots with the time 10:00.
\<close>

theorem createDayPlan_counterexample:
  "map_option (\<lambda>plan. map time (slots plan))
     (createDayPlan mondays noAffiliate ''2025-06-02'' []
        [slotAt ''10:00'' hotelCheckout, slotAt ''10:00'' walkingTour] relaxedHigh)
     = Some [''10:00'', ''10:00'']"
  by (simp add: createDayPlan_def Let_def getScheduleTemplate_def relaxedHigh_def
      fillSlot_def selectBestActivity_def sortSlots_def slotAt_def timeToMinutes_1000
      addTravelTimes_def)

lemma pergamon_suitable:
  "isSuitable ty relaxedHigh dow t pergamon
     = (\<not> str_includes ty ''breakfast'' \<and> \<not> str_includes ty ''lunch''
        \<and> \<not> str_includes ty ''dinner'' \<and> \<not> str_includes ty ''coffee''
        \<and> \<not> str_includes ty ''nightlife'')"
  by (simp add: isSuitable_def pergamon_def relaxedHigh_def isOpenAt_def truthy_def
      matchesBudget_def toLowerCase_def toLowerChar_def)

lemma select_pergamon:
  "selectBestActivity ty [pergamon] relaxedHigh dow t
     = (if isSuitable ty relaxedHigh dow t pergamon then Some pergamon else None)"
  by (simp add: selectBestActivity_def)

lemma relaxedHigh_pace: "pref_pace relaxedHigh = Relaxed"
  by (simp add: relaxedHigh_def)

lemma pergamon_fill:
  "fst (foldl (fillSlot noAffiliate [pergamon] relaxedHigh dow) ([], {})
          (getScheduleTemplate Relaxed))
   = [createTimeSlot noAffiliate ''11:00'' pergamon,
      createTimeSlot noAffiliate ''15:30'' pergamon,
      createTimeSlot noAffiliate ''22:00'' pergamon]"
  by (simp add: getScheduleTemplate_def fillSlot_def select_pergamon pergamon_suitable)

text \<open>
  Claim C9, as stated, fails: with one museum available and a relaxed pace, the morning,
  afternoon and evening slots all get that museum.
\<close>

theorem generated_slots_counterexample:
  "map_option (\<lambda>plan. map (\<lambda>s. (time s, name (activity s))) (slots plan))
     (createDayPlan mondays noAffiliate ''2025-06-02'' [pergamon] [] relaxedHigh)
     = Some [(''11:00'', ''Pergamon Museum''), (''15:30'', ''Pergamon Museum''),
             (''22:00'', ''Pergamon Museum'')]"
  by (simp add: createDayPlan_def Let_def relaxedHigh_pace pergamon_fill sortSlots_def
      clock_defs addTravelTimes_def createTimeSlot_def)
    (simp add: pergamon_def)

lemma cafe_suitable:
  "isSuitable ty relaxedHigh dow t cornerCafe
     = (\<not> str_includes ty ''lunch'' \<and> \<not> str_includes ty ''dinner''
        \<and> \<not> str_includes ty ''nightlife'')"
  by (simp add: isSuitable_def cornerCafe_def relaxedHigh_def isOpenAt_def truthy_def
      matchesBudget_def toLowerCase_def toLowerChar_def)

lemma select_cafe:
  "selectBestActivity ty [cornerCafe] relaxedHigh dow t
     = (if isSuitable ty relaxedHigh dow t cornerCafe then Some cornerCafe else None)"
  by (simp add: selectBestActivity_def)

lemma breakfast_choice:
  "selectBestActivity ''breakfast'' [cornerCafe, pergamon] relaxedHigh (Some ''Monday'') ''09:30''
     = Some cornerCafe"
  by (simp add: selectBestActivity_def cafe_suitable pergamon_suitable)

lemma cafe_fill:
  "fst (foldl (fillSlot noAffiliate [cornerCafe] relaxedHigh dow)
          ([slotAt ''9:30'' hotelCheckout], {''9:30''}) (getScheduleTemplate Relaxed))
   = [slotAt ''9:30'' hotelCheckout,
      createTimeSlot noAffiliate ''09:30'' cornerCafe,
      createTimeSlot noAffiliate ''11:00'' cornerCafe,
      createTimeSlot noAffiliate ''15:30'' cornerCafe,
      createTimeSlot noAffiliate ''17:30'' cornerCafe,
      createTimeSlot noAffiliate ''22:00'' cornerCafe]"
  by (simp add: getScheduleTemplate_def fillSlot_def select_cafe cafe_suitable)

text \<open>
  A fixed booking written \<open>9:30\<close> does not keep the 09:30 breakfast slot of the relaxed
  template free: the set of planned times holds strings, and the plan gets both slots on
  minute 570.
\<close>

lemma unpadded_fixed_time:
  "map_option (\<lambda>plan. map (\<lambda>s. (time s, name (activity s), timeToMinutes (time s))) (slots plan))
     (createDayPlan mondays noAffiliate ''2025-06-02'' [cornerCafe]
        [slotAt ''9:30'' hotelCheckout] relaxedHigh)
     = Some [(''9:30'', ''Hotel checkout'', Some 570), (''09:30'', ''Corner Cafe'', Some 570),
             (''11:00'', ''Corner Cafe'', Some 660), (''15:30'', ''Corner Cafe'', Some 930),
             (''17:30'', ''Corner Cafe'', Some 1050), (''22:00'', ''Corner Cafe'', Some 1320)]"
proof -
  have t: "time (slotAt ''9:30'' hotelCheckout) = ''9:30''" by (simp add: slotAt_def)
  show ?thesis
    by (simp add: createDayPlan_def Let_def relaxedHigh_pace t cafe_fill sortSlots_def
        clock_defs addTravelTimes_def createTimeSlot_def)
      (simp add: slotAt_def cornerCafe_def hotelCheckout_def)
qed

theorem createDayPlan_slots_witness:
  "\<exists>plan. createDayPlan mondays noAffiliate ''2025-06-02'' [cornerCafe, pergamon]
              [slotAt ''09:30'' hotelCheckout] relaxedHigh = Some plan
     \<and> selectBestActivity ''breakfast'' [cornerCafe, pergamon] relaxedHigh (Some ''Monday'')
         ''09:30'' = Some cornerCafe
     \<and> sorted (map (\<lambda>s. the (timeToMinutes (time s))) (slots plan))
     \<and> distinct (map (\<lambda>s. the (timeToMinutes (time s))) (slots plan))
     \<and> count (mset (map (\<lambda>s. the (timeToMinutes (time s))) (slots plan))) 570 = 1
     \<and> (\<exists>s\<in>set (slots plan). time s = ''09:30'' \<and> activity s = hotelCheckout)"
proof -
  let ?min = "\<lambda>s. the (timeToMinutes (time s))"
  let ?fixed = "[slotAt ''09:30'' hotelCheckout]"
  have wf: "\<forall>b\<in>set ?fixed. timeToMinutes (time b) \<noteq> None"
    by (simp add: slotAt_def clock_defs)
  have same: "\<forall>b\<in>set ?fixed. \<forall>e\<in>set (getScheduleTemplate (pref_pace relaxedHigh)).
                 timeToMinutes (time b) = timeToMinutes (fst e) \<longrightarrow> time b = fst e"
    by (simp add: relaxedHigh_pace getScheduleTemplate_def slotAt_def clock_defs)
  have fm: "map ?min ?fixed = [570]"
    by (simp add: slotAt_def clock_defs)
  from createDayPlan_slots [OF wf same, of mondays noAffiliate "''2025-06-02''"
      "[cornerCafe, pergamon]"]
  obtain plan gms where
    p: "createDayPlan mondays noAffiliate ''2025-06-02'' [cornerCafe, pergamon]
              ?fixed relaxedHigh = Some plan"
    and s: "sorted (map ?min (slots plan))"
    and f: "\<forall>b\<in>set ?fixed. \<exists>s\<in>set (slots plan).
                 time s = time b \<and> activity s = activity b
                 \<and> affiliateLink s = affiliateLink b \<and> tips s = tips b"
    and m: "mset (map ?min (slots plan)) = mset (map ?min ?fixed) + mset gms"
    and g: "set gms \<inter> set (map ?min ?fixed) = {}"
    and d: "distinct (map ?min ?fixed) \<longrightarrow> distinct (map ?min (slots plan))"
    by blast
  have "distinct (map ?min (slots plan))" using d by simp
  moreover have "count (mset (map ?min (slots plan))) 570 = 1"
  proof -
    have "570 \<notin> set gms" using g unfolding fm by simp
    then have c0: "count (mset gms) 570 = 0" by (simp add: count_eq_zero_iff)
    have "count (mset (map ?min (slots plan))) 570 = count (mset (map ?min ?fixed) + mset gms) 570"
      by (simp only: m)
    also have "\<dots> = 1" using c0 unfolding fm by simp
    finally show ?thesis .
  qed
  moreover have "\<exists>s\<in>set (slots plan). time s = ''09:30'' \<and> activity s = hotelCheckout"
    using f by (auto simp: slotAt_def)
  ultimately show ?thesis using p s breakfast_choice by blast
qed

lemma monday: "getDayOfWeek mondays d = Some ''Monday''"
  by (simp add: getDayOfWeek_def mondays_def)

theorem generated_slots_selection_witness:
  "\<exists>plan. createDayPlan mondays noAffiliate ''2025-06-02'' [pergamon]
              [slotAt ''09:30'' hotelCheckout] relaxedHigh = Some plan
     \<and> mset (map (\<lambda>s. (time s, activity s)) (slots plan))
         = {#(''09:30'', hotelCheckout), (''11:00'', pergamon), (''15:30'', pergamon),
             (''22:00'', pergamon)#}
     \<and> isSuitable ''morning_activity'' relaxedHigh (Some ''Monday'') ''11:00'' pergamon
     \<and> selectBestActivity ''lunch'' [pergamon] relaxedHigh (Some ''Monday'') ''13:30'' = None"
proof -
  have wf: "\<forall>b\<in>set [slotAt ''09:30'' hotelCheckout]. timeToMinutes (time b) \<noteq> None"
    by (simp add: slotAt_def clock_defs)
  from plan_exists [OF wf] obtain plan where
    p: "createDayPlan mondays noAffiliate ''2025-06-02'' [pergamon]
              [slotAt ''09:30'' hotelCheckout] relaxedHigh = Some plan"
    by blast
  note sel = generated_slots_selection [OF p, unfolded monday]
  have "mset (map (\<lambda>s. (time s, activity s)) (slots plan))
         = {#(''09:30'', hotelCheckout), (''11:00'', pergamon), (''15:30'', pergamon),
             (''22:00'', pergamon)#}"
    using sel
    by (simp add: relaxedHigh_pace getScheduleTemplate_def select_pergamon pergamon_suitable
        slotAt_def)
  moreover have "selectBestActivity ''morning_activity'' [pergamon] relaxedHigh
                   (Some ''Monday'') ''11:00'' = Some pergamon"
    by (simp add: select_pergamon pergamon_suitable)
  with sel have "isSuitable ''morning_activity'' relaxedHigh (Some ''Monday'') ''11:00'' pergamon"
    by blast
  moreover have "\<forall>b\<in>set [pergamon]. \<not> isSuitable ''lunch'' relaxedHigh (Some ''Monday'') ''13:30'' b"
    by (simp add: pergamon_suitable)
  with sel have "selectBestActivity ''lunch'' [pergamon] relaxedHigh (Some ''Monday'') ''13:30''
                   = None"
    by blast
  ultimately show ?thesis using p by blast
qed

end
